theory Spec2Isabelle
  imports Main "HOL-Library.AList"
begin

section \<open>JavaScript values\<close>

text \<open>
  The deployment class handles untyped JSON data (settings documents, API responses,
  template parameters). A value is one of the JavaScript primitives, an array or a plain
  object. An object is the list of its own enumerable properties in insertion order, which
  is the order \<open>for ... in\<close>, \<open>Object.assign\<close> and \<open>JSON.stringify\<close> follow
  for keys that are not canonical array indices. Numbers are integers here; no number of
  the code is computed with, they are only tested for truthiness and printed.
\<close>

datatype jsval =
    JUndefined
  | JNull
  | JBool bool
  | JNum int
  | JStr string
  | JArr "jsval list"
  | JObj "(string \<times> jsval) list"

datatype error = TypeError | Failure string

text \<open>JavaScript's \<open>ToBoolean\<close>, as used by \<open>if (x)\<close>, \<open>!x\<close> and \<open>a && b\<close>.\<close>

fun truthy :: "jsval \<Rightarrow> bool" where
  "truthy JUndefined = False"
| "truthy JNull = False"
| "truthy (JBool b) = b"
| "truthy (JNum n) = (n \<noteq> 0)"
| "truthy (JStr s) = (s \<noteq> [])"
| "truthy (JArr _) = True"
| "truthy (JObj _) = True"

fun nullish :: "jsval \<Rightarrow> bool" where
  "nullish JUndefined = True"
| "nullish JNull = True"
| "nullish _ = False"

text \<open>An optional string argument (\<open>x?: string\<close>): absent is \<open>undefined\<close>.\<close>

fun of_opt :: "string option \<Rightarrow> jsval" where
  "of_opt None = JUndefined"
| "of_opt (Some s) = JStr s"

text \<open>
  Property read \<open>v.k\<close>. Reading a property of \<open>undefined\<close> or \<open>null\<close> throws a
  TypeError; a property an object does not have reads as \<open>undefined\<close>. The code reads
  only data properties by name (\<open>value\<close>, \<open>luis\<close>, \<open>error\<close>, ...), none of which
  exists on an array, a string, a number or a boolean.
\<close>

fun get_member :: "jsval \<Rightarrow> string \<Rightarrow> error + jsval" where
  "get_member JUndefined k = Inl TypeError"
| "get_member JNull k = Inl TypeError"
| "get_member (JObj kvs) k = Inr (case map_of kvs k of Some v \<Rightarrow> v | None \<Rightarrow> JUndefined)"
| "get_member _ k = Inr JUndefined"

text \<open>Decimal rendering of an array index, and JavaScript's \<open>ToString\<close>.\<close>

definition digit_char :: "nat \<Rightarrow> char" where
  "digit_char d = ''0123456789'' ! d"

fun string_of_nat :: "nat \<Rightarrow> string" where
  "string_of_nat n =
     (if n < 10 then [digit_char n] else string_of_nat (n div 10) @ [digit_char (n mod 10)])"

declare string_of_nat.simps [simp del]

definition string_of_int :: "int \<Rightarrow> string" where
  "string_of_int i = (if i < 0 then ''-'' @ string_of_nat (nat (- i)) else string_of_nat (nat i))"

fun join_with :: "string \<Rightarrow> string list \<Rightarrow> string" where
  "join_with sep [] = []"
| "join_with sep [s] = s"
| "join_with sep (s # t # ts) = s @ sep @ join_with sep (t # ts)"

fun js_to_string :: "jsval \<Rightarrow> string" where
  "js_to_string JUndefined = ''undefined''"
| "js_to_string JNull = ''null''"
| "js_to_string (JBool b) = (if b then ''true'' else ''false'')"
| "js_to_string (JNum n) = string_of_int n"
| "js_to_string (JStr s) = s"
| "js_to_string (JArr xs) =
     join_with '','' (map (\<lambda>x. if nullish x then [] else js_to_string x) xs)"
| "js_to_string (JObj _) = ''[object Object]''"

text \<open>
  The enumerable properties a \<open>for ... in\<close> loop or \<open>Object.assign\<close> visits: the fields
  of an object, the indexed elements of an array, the indexed characters of a string, and
  nothing for the other primitives.
\<close>

fun enumerable :: "jsval \<Rightarrow> (string \<times> jsval) list" where
  "enumerable (JObj kvs) = kvs"
| "enumerable (JArr xs) = zip (map string_of_nat [0..<length xs]) xs"
| "enumerable (JStr s) = zip (map string_of_nat [0..<length s]) (map (\<lambda>c. JStr [c]) s)"
| "enumerable _ = []"

text \<open>\<open>target[k] = v\<close> on a plain object, and \<open>Object.assign(target, source)\<close>.\<close>

definition set_field :: "string \<Rightarrow> jsval \<Rightarrow> (string \<times> jsval) list \<Rightarrow> (string \<times> jsval) list" where
  "set_field k v kvs = AList.update k v kvs"

definition object_assign :: "(string \<times> jsval) list \<Rightarrow> jsval \<Rightarrow> (string \<times> jsval) list" where
  "object_assign target source = fold (\<lambda>(k, v). set_field k v) (enumerable source) target"

section \<open>Template parameters\<close>

definition pack :: "jsval \<Rightarrow> jsval" where
  "pack scope = JObj [(''value'', scope)]"

fun unpack_loop :: "(string \<times> jsval) list \<Rightarrow> (string \<times> jsval) list \<Rightarrow> error + (string \<times> jsval) list" where
  "unpack_loop unpacked [] = Inr unpacked"
| "unpack_loop unpacked ((key, objValue) # rest) =
     (case get_member objValue ''value'' of
        Inl e \<Rightarrow> Inl e
      | Inr v \<Rightarrow> unpack_loop (if truthy v then set_field key v unpacked else unpacked) rest)"

definition unpackObject :: "jsval \<Rightarrow> error + jsval" where
  "unpackObject output = map_sum id JObj (unpack_loop [] (enumerable output))"

definition getDeploymentTemplateParam ::
  "jsval \<Rightarrow> jsval \<Rightarrow> string \<Rightarrow> string \<Rightarrow> bool \<Rightarrow> jsval" where
  "getDeploymentTemplateParam appId appPwd location name shouldCreateAuthoringResource =
     JObj [(''appId'', pack appId),
           (''appSecret'', pack appPwd),
           (''appServicePlanLocation'', pack (JStr location)),
           (''botId'', pack (JStr name)),
           (''shouldCreateAuthoringResource'', pack (JBool shouldCreateAuthoringResource))]"


section \<open>Effects and failures\<close>

text \<open>
  Every \<open>await\<close> of the deployment class is a call to the outside world: the file system,
  the Azure SDK clients, the LUIS build tool, HTTP endpoints. A procedure of the model
  returns its outcome (\<open>Inl\<close> an exception that rejects the promise, \<open>Inr\<close> the value the
  promise resolves to) together with the list of the external calls it made, in order.
  What the outside world answers is read from an environment record, one field per call
  site. Every call is taken to answer, with a value or with an exception; a call that never
  answers, and an error raised outside the promise that is awaited (an error event on a
  stream nobody listens to), are outside the model. The logger is the caller's callback
  and is taken to record its message and return. The time of a call is not modelled:
  dates are left out of the recorded arguments, and a time stamp is an answer of the
  environment.
\<close>

datatype logger_type =
  PROVISION_INFO | PROVISION_ERROR | PROVISION_SUCCESS | DEPLOY_INFO | DEPLOY_SUCCESS

datatype msg = MText string | MValue jsval | MResponse int jsval

datatype event =
    Log logger_type msg
  | ConsoleLog error
  | ExistsSync string
  | PathExists string
  | ReadJson string
  | ReadFile string
  | ReadFileSync string
  | ReadDir string
  | WriteFile string string
  | WriteJson string jsval
  | Remove string
  | Mkdir string
  | Exec string
  | Copy string string
  | Zip string string
  | ApplicationsCreate string jsval
  | ResourceGroupsCreateOrUpdate string string
  | DeploymentsValidate string string jsval
  | DeploymentsCreateOrUpdate string string jsval
  | DeploymentsGet string string
  | DeploymentOperationsList string string
  | LuLoadContents "string list" string string jsval
  | LuBuild jsval jsval string string string
  | LuWriteDialogAssets string
  | LuisGetAccounts string jsval
  | LuisAssignAccount string jsval
  | UpdatePublishingUser string string
  | ZipDeploy string string string

type_synonym 'a io = "(error + 'a) \<times> event list"

definition ret :: "'a \<Rightarrow> 'a io" where
  "ret a = (Inr a, [])"

definition lift :: "error + 'a \<Rightarrow> 'a io" where
  "lift r = (r, [])"

definition perform :: "event \<Rightarrow> error + 'a \<Rightarrow> 'a io" where
  "perform ev r = (r, [ev])"

definition emit :: "event \<Rightarrow> unit io" where
  "emit ev = (Inr (), [ev])"

definition and_then :: "'a io \<Rightarrow> ('a \<Rightarrow> 'b io) \<Rightarrow> 'b io" where
  "and_then m f =
     (case m of
        (Inl e, t) \<Rightarrow> (Inl e, t)
      | (Inr a, t) \<Rightarrow> (case f a of (r, t') \<Rightarrow> (r, t @ t')))"

definition seq :: "unit io \<Rightarrow> 'b io \<Rightarrow> 'b io" where
  "seq m n = and_then m (\<lambda>_. n)"

definition try_catch :: "'a io \<Rightarrow> (error \<Rightarrow> 'a io) \<Rightarrow> 'a io" where
  "try_catch m h =
     (case m of
        (Inl e, t) \<Rightarrow> (case h e of (r, t') \<Rightarrow> (r, t @ t'))
      | (Inr a, t) \<Rightarrow> (Inr a, t))"

definition bind_result :: "error + 'a \<Rightarrow> ('a \<Rightarrow> error + 'b) \<Rightarrow> error + 'b" where
  "bind_result r f = (case r of Inl e \<Rightarrow> Inl e | Inr a \<Rightarrow> f a)"

text \<open>A callback-style call that reports only an error (\<open>err => ...\<close>).\<close>

fun completed :: "error option \<Rightarrow> error + unit" where
  "completed None = Inr ()"
| "completed (Some e) = Inl e"

text \<open>Optional chaining \<open>v?.k\<close>.\<close>

definition opt_member :: "jsval \<Rightarrow> string \<Rightarrow> jsval" where
  "opt_member v k =
     (if nullish v then JUndefined
      else (case get_member v k of Inr x \<Rightarrow> x | Inl _ \<Rightarrow> JUndefined))"

text \<open>
  The document \<open>JSON.stringify\<close> puts on disk: a property whose value is \<open>undefined\<close> is
  left out, an \<open>undefined\<close> array element is written as \<open>null\<close>. The model works on
  parsed documents; white space and the spelling of numbers and escapes are below it.
\<close>

fun json_doc :: "jsval \<Rightarrow> jsval" where
  "json_doc (JObj kvs) =
     JObj (map (\<lambda>kv. (fst kv, json_doc (snd kv))) (filter (\<lambda>kv. snd kv \<noteq> JUndefined) kvs))"
| "json_doc (JArr xs) = JArr (map (\<lambda>x. if x = JUndefined then JNull else json_doc x) xs)"
| "json_doc v = v"

text \<open>What \<open>JSON.parse\<close> can return: no \<open>undefined\<close> anywhere.\<close>

fun is_json :: "jsval \<Rightarrow> bool" where
  "is_json JUndefined = False"
| "is_json (JObj kvs) = list_all (\<lambda>kv. is_json (snd kv)) kvs"
| "is_json (JArr xs) = list_all is_json xs"
| "is_json _ = True"

section \<open>The deployment class\<close>

text \<open>
  The fields of a constructed \<open>BotProjectDeploy\<close> that the methods read. The constructor
  takes each path from the configuration or, when it is absent, puts a default below the
  project path.
\<close>

record config =
  subId :: string
  credsToken :: string
  projPath :: string
  deploymentSettingsPath :: string
  deployFilePath :: string
  zipPath :: string
  publishFolder :: string
  settingsPath :: string
  templatePath :: string
  dotnetProjectPath :: string
  generatedFolder :: string
  remoteBotPath :: string

subsection \<open>Provisioning: \<open>create\<close>\<close>

record deployment_response =
  response_status :: int
  response_body :: jsval

record create_env =
  settingsExists :: bool
  settingsJson :: "error + jsval"
  registerResponse :: "error + jsval"
  timeStamp :: string
  groupResponse :: "error + jsval"
  templateForValidate :: "error + string"
  templateForDeploy :: "error + string"
  json_parse :: "string \<Rightarrow> error + jsval"
  validateResponse :: "error + jsval"
  deployResponse :: "error + deployment_response"
  outputsResponse :: "error + jsval"
  writeFileErr :: "error option"
  operationsResponse :: "error + jsval"

definition createResourceGroup :: "create_env \<Rightarrow> string \<Rightarrow> string \<Rightarrow> jsval io" where
  "createResourceGroup env location resourceGroupName =
     seq (emit (Log PROVISION_INFO (MText ''> Creating resource group ...'')))
         (perform (ResourceGroupsCreateOrUpdate resourceGroupName location) (groupResponse env))"

definition deployParam :: "jsval \<Rightarrow> jsval \<Rightarrow> jsval" where
  "deployParam template templateParam =
     JObj [(''properties'',
            JObj [(''template'', template),
                  (''parameters'', templateParam),
                  (''mode'', JStr ''Incremental'')])]"

definition validateDeployment ::
  "create_env \<Rightarrow> string \<Rightarrow> string \<Rightarrow> string \<Rightarrow> string \<Rightarrow> jsval \<Rightarrow> jsval io" where
  "validateDeployment env templatePath' location resourceGroupName deployName templateParam =
     seq (emit (Log PROVISION_INFO (MText ''> Validating Azure deployment ...'')))
      (and_then (perform (ReadFile templatePath') (templateForValidate env)) (\<lambda>templateFile.
       and_then (lift (json_parse env templateFile)) (\<lambda>template.
       perform (DeploymentsValidate resourceGroupName deployName (deployParam template templateParam))
               (validateResponse env))))"

definition createDeployment ::
  "create_env \<Rightarrow> string \<Rightarrow> string \<Rightarrow> string \<Rightarrow> string \<Rightarrow> jsval \<Rightarrow> deployment_response io" where
  "createDeployment env templatePath' location resourceGroupName deployName templateParam =
     seq (emit (Log PROVISION_INFO (MText ''> Deploying Azure services (this could take a while)...'')))
      (and_then (perform (ReadFile templatePath') (templateForDeploy env)) (\<lambda>templateFile.
       and_then (lift (json_parse env templateFile)) (\<lambda>template.
       perform (DeploymentsCreateOrUpdate resourceGroupName deployName (deployParam template templateParam))
               (deployResponse env))))"

definition createApp :: "create_env \<Rightarrow> string \<Rightarrow> jsval \<Rightarrow> jsval io" where
  "createApp env displayName appPassword =
     perform (ApplicationsCreate displayName appPassword) (registerResponse env)"

definition updateDeploymentJsonFile ::
  "create_env \<Rightarrow> string \<Rightarrow> string \<Rightarrow> string \<Rightarrow> jsval \<Rightarrow> jsval \<Rightarrow> jsval io" where
  "updateDeploymentJsonFile env settingsPath' resourceGroupName deployName appId appPwd =
     and_then (perform (DeploymentsGet resourceGroupName deployName) (outputsResponse env)) (\<lambda>outputs.
       let outputResult = opt_member (opt_member outputs ''properties'') ''outputs'' in
       if truthy outputResult then
         (let applicationResult =
                JObj [(''MicrosoftAppId'', appId), (''MicrosoftAppPassword'', appPwd)] in
          and_then (lift (unpackObject outputResult)) (\<lambda>outputObj.
            let result = JObj (object_assign (object_assign [] outputObj) applicationResult) in
            perform (WriteJson settingsPath' (json_doc result))
                    (case writeFileErr env of Some err \<Rightarrow> Inl err | None \<Rightarrow> Inr result)))
       else ret (JObj []))"

text \<open>
  The diagnostics of \<open>create\<close> (taken when the settings update resolves to a falsy value):
  \<open>value?.properties?.statusMessage.error\<close> and its \<open>code\<close>; an optional chain that
  meets \<open>undefined\<close> or \<open>null\<close> at a \<open>?.\<close> is \<open>undefined\<close> as a whole.
\<close>

definition operation_error :: "jsval \<Rightarrow> error + jsval" where
  "operation_error v =
     (if nullish v then Inr JUndefined
      else bind_result (get_member v ''properties'') (\<lambda>p.
        if nullish p then Inr JUndefined
        else bind_result (get_member p ''statusMessage'') (\<lambda>sm. get_member sm ''error'')))"

definition operation_error_member :: "jsval \<Rightarrow> string \<Rightarrow> error + jsval" where
  "operation_error_member v k =
     (if nullish v then Inr JUndefined
      else bind_result (get_member v ''properties'') (\<lambda>p.
        if nullish p then Inr JUndefined
        else bind_result (get_member p ''statusMessage'') (\<lambda>sm.
             bind_result (get_member sm ''error'') (\<lambda>er. get_member er k))))"

definition operation_resource_type :: "jsval \<Rightarrow> jsval" where
  "operation_resource_type v =
     opt_member (opt_member (opt_member v ''properties'') ''targetResource'') ''resourceType''"

fun failed_operations :: "jsval list \<Rightarrow> error + jsval list" where
  "failed_operations [] = Inr []"
| "failed_operations (v # vs) =
     bind_result (operation_error v) (\<lambda>er.
     bind_result (failed_operations vs) (\<lambda>r.
       Inr (if er \<noteq> JNull then v # r else r)))"

fun report_operations :: "jsval list \<Rightarrow> unit io" where
  "report_operations [] = ret ()"
| "report_operations (operation # rest) =
     and_then (lift (operation_error_member operation ''code'')) (\<lambda>code.
       seq (if code = JStr ''MissingRegistrationForLocation'' then
              emit (Log PROVISION_ERROR (MText
                (''! Deployment failed for resource of type ''
                 @ js_to_string (operation_resource_type operation)
                 @ ''. This resource is not avaliable in the location provided.'')))
            else
              seq (emit (Log PROVISION_ERROR (MText
                     (''! Deployment failed for resource of type ''
                      @ js_to_string (operation_resource_type operation) @ ''.''))))
             (and_then (lift (operation_error_member operation ''code'')) (\<lambda>c.
              seq (emit (Log PROVISION_ERROR (MText (''! Code: '' @ js_to_string c @ ''.''))))
             (and_then (lift (operation_error_member operation ''message'')) (\<lambda>m.
                  emit (Log PROVISION_ERROR (MText (''! Message: '' @ js_to_string m @ ''.''))))))))
           (report_operations rest))"

definition diagnose :: "create_env \<Rightarrow> string \<Rightarrow> string \<Rightarrow> unit io" where
  "diagnose env resourceGroupName timeStamp' =
     and_then (perform (DeploymentOperationsList resourceGroupName timeStamp') (operationsResponse env))
       (\<lambda>operations.
          if truthy operations then
            (case operations of
               JArr ops \<Rightarrow> and_then (lift (failed_operations ops)) report_operations
             | _ \<Rightarrow> lift (Inl TypeError))
          else emit (Log PROVISION_ERROR (MText
                 ''! Deployment failed. Please refer to the log file for more information.'')))"

definition delete_hint :: "string \<Rightarrow> string" where
  "delete_hint resourceGroupName =
     ''+ To delete this resource group, run 'az group delete -g '' @ resourceGroupName
     @ '' --no-wait'' @ [CHR 0x27]"

text \<open>
  \<open>create\<close> is given in four parts, in the order of the source: the settings update and
  the final report, the template deployment, everything from the log line "Create App Id
  Success" onwards (both ways of obtaining the application id continue there), and the
  function itself.
\<close>

definition create_update_settings ::
  "config \<Rightarrow> create_env \<Rightarrow> string \<Rightarrow> string \<Rightarrow> jsval \<Rightarrow> jsval \<Rightarrow> jsval io" where
  "create_update_settings cfg env resourceGroupName timeStamp' appId appPassword =
     and_then (updateDeploymentJsonFile env (settingsPath cfg) resourceGroupName timeStamp'
                 appId appPassword) (\<lambda>updateResult.
     seq (emit (Log PROVISION_INFO (MValue updateResult)))
    (seq (if \<not> truthy updateResult then diagnose env resourceGroupName timeStamp' else ret ())
    (seq (emit (Log PROVISION_SUCCESS (MText (delete_hint resourceGroupName))))
         (ret (JBool True)))))"

definition create_deploy ::
  "config \<Rightarrow> create_env \<Rightarrow> string \<Rightarrow> string \<Rightarrow> string \<Rightarrow> jsval \<Rightarrow> jsval \<Rightarrow> jsval \<Rightarrow> jsval
   \<Rightarrow> jsval io" where
  "create_deploy cfg env location resourceGroupName timeStamp' appId appPassword
     deploymentTemplateParam validationError =
     and_then (createDeployment env (templatePath cfg) location resourceGroupName timeStamp'
                 deploymentTemplateParam) (\<lambda>deployment.
     seq (emit (Log PROVISION_INFO
            (MResponse (response_status deployment) (response_body deployment))))
     (if response_status deployment \<noteq> 200 then
        seq (emit (Log PROVISION_ERROR (MText
               ''! Template is not valid with provided parameters. Review the log for more information.'')))
       (seq (emit (Log PROVISION_ERROR (MText (''! Error: '' @ js_to_string validationError))))
       (seq (emit (Log PROVISION_ERROR (MText (delete_hint resourceGroupName))))
            (ret (JBool False))))
      else create_update_settings cfg env resourceGroupName timeStamp' appId appPassword))"

definition create_resources ::
  "config \<Rightarrow> create_env \<Rightarrow> string \<Rightarrow> string \<Rightarrow> string \<Rightarrow> string option \<Rightarrow> string option
   \<Rightarrow> jsval \<Rightarrow> jsval io" where
  "create_resources cfg env name location environment appPassword luisAuthoringKey appId =
     (let shouldCreateAuthoringResource = (if truthy (of_opt luisAuthoringKey) then False else True);
          resourceGroupName = name @ ''-'' @ environment;
          timeStamp' = timeStamp env;
          deploymentTemplateParam =
            getDeploymentTemplateParam appId (of_opt appPassword) location name
              shouldCreateAuthoringResource
      in
      seq (emit (Log PROVISION_INFO (MText (''> Create App Id Success! ID: '' @ js_to_string appId))))
     (and_then (createResourceGroup env location resourceGroupName) (\<lambda>rpres.
      seq (emit (Log PROVISION_INFO (MValue rpres)))
     (seq (emit (Log PROVISION_INFO (MValue deploymentTemplateParam)))
     (and_then (validateDeployment env (templatePath cfg) location resourceGroupName timeStamp'
                  deploymentTemplateParam) (\<lambda>validation.
      seq (emit (Log PROVISION_INFO (MValue validation)))
     (and_then (lift (get_member validation ''error'')) (\<lambda>validationError.
      if truthy validationError then
        seq (emit (Log PROVISION_ERROR (MText
               ''! Template is not valid with provided parameters. Review the log for more information.'')))
       (and_then (lift (get_member validationError ''message'')) (\<lambda>message.
        seq (emit (Log PROVISION_ERROR (MText (''! Error: '' @ js_to_string message))))
       (seq (emit (Log PROVISION_ERROR (MText (delete_hint resourceGroupName))))
            (ret (JBool False)))))
      else
        create_deploy cfg env location resourceGroupName timeStamp' appId (of_opt appPassword)
          deploymentTemplateParam validationError))))))))"

definition create ::
  "config \<Rightarrow> create_env \<Rightarrow> string \<Rightarrow> string \<Rightarrow> string \<Rightarrow> string option \<Rightarrow> string option
   \<Rightarrow> jsval io" where
  "create cfg env name location environment appPassword luisAuthoringKey =
     and_then (perform (ExistsSync (settingsPath cfg)) (Inr (settingsExists env))) (\<lambda>exists.
     if \<not> exists then
       seq (emit (Log PROVISION_INFO (MText
              ''! Could not find an 'appsettings.deployment.json' file in the current directory.'')))
           (ret JUndefined)
     else
       and_then (perform (ReadJson (settingsPath cfg)) (settingsJson env)) (\<lambda>settings.
       and_then (lift (get_member settings ''MicrosoftAppId'')) (\<lambda>appId.
       if \<not> truthy appId then
         (if \<not> truthy (of_opt appPassword) then
            seq (emit (Log PROVISION_INFO (MText ''App password is required'')))
                (ret JUndefined)
          else
            seq (emit (Log PROVISION_INFO (MText ''> Creating App Registration ...'')))
           (and_then (createApp env name (of_opt appPassword)) (\<lambda>appCreated.
            seq (emit (Log PROVISION_INFO (MValue appCreated)))
           (and_then (lift (get_member appCreated ''appId'')) (\<lambda>appId'.
              create_resources cfg env name location environment appPassword luisAuthoringKey
                appId')))))
       else
         create_resources cfg env name location environment appPassword luisAuthoringKey appId)))"

subsection \<open>Publishing: \<open>deploy\<close>\<close>

text \<open>\<open>String.prototype.endsWith\<close> and \<open>String.prototype.includes\<close>.\<close>

definition ends_with :: "string \<Rightarrow> string \<Rightarrow> bool" where
  "ends_with s t = (length t \<le> length s \<and> drop (length s - length t) s = t)"

fun includes_str :: "string \<Rightarrow> string \<Rightarrow> bool" where
  "includes_str [] t = (t = [])"
| "includes_str (c # cs) t = (take (length t) (c # cs) = t \<or> includes_str cs t)"

text \<open>
  A directory as \<open>readdir\<close> with \<open>withFileTypes\<close> shows it: files, directories with
  their entries, and directories that cannot be read.
\<close>

datatype dirent = FileEntry string | DirEntry string "dirent list" | Unreadable string error

record deploy_env =
  deployFileExists :: bool
  prepareWrite :: "error option"
  zipExists :: bool
  removeZip :: "error option"
  dotnetPublishExec :: "error option"
  path_join :: "string \<Rightarrow> string \<Rightarrow> string"
  path_resolve :: "string \<Rightarrow> string \<Rightarrow> string"
  settingsRead :: "error + jsval"
  botDir :: "error + dirent list"
  fileLength :: "string \<Rightarrow> error + nat"
  generatedExists :: bool
  mkdirGenerated :: "error option"
  loadContents :: "error + jsval"
  buildResult :: "error + jsval"
  writeDialogAssets :: "error option"
  botDirAfterBuild :: "error + dirent list"
  readJsonFile :: "string \<Rightarrow> error + jsval"
  deploymentSettingsRead :: "error + jsval"
  deploymentSettingsWrite :: "error option"
  accountsResponse :: "error + string"
  parse_json :: "string \<Rightarrow> error + jsval"
  assignResponse :: "string \<Rightarrow> error + jsval"
  zipResult :: "error option"
  publishingUserResponse :: "error + jsval"
  now :: string
  zipRead :: "error + string"
  zipDeployResponse :: "error + jsval"

text \<open>
  \<open>getFiles\<close>: the files below a directory, depth first in the order of the entries.
  \<open>Promise.all\<close> rejects when any of the nested reads fails; which of several failures
  it reports depends on timing, and the model reports the first in entry order.
\<close>

fun files_of :: "(string \<Rightarrow> string \<Rightarrow> string) \<Rightarrow> string \<Rightarrow> dirent \<Rightarrow> error + string list"
and files_in :: "(string \<Rightarrow> string \<Rightarrow> string) \<Rightarrow> string \<Rightarrow> dirent list \<Rightarrow> error + string list"
where
  "files_of resolve dir (FileEntry n) = Inr [resolve dir n]"
| "files_of resolve dir (DirEntry n entries) = files_in resolve (resolve dir n) entries"
| "files_of resolve dir (Unreadable n e) = Inl e"
| "files_in resolve dir [] = Inr []"
| "files_in resolve dir (d # ds) =
     bind_result (files_of resolve dir d) (\<lambda>fs.
     bind_result (files_in resolve dir ds) (\<lambda>gs. Inr (fs @ gs)))"

definition getFiles ::
  "(string \<Rightarrow> string \<Rightarrow> string) \<Rightarrow> error + dirent list \<Rightarrow> string \<Rightarrow> string list io" where
  "getFiles resolve listing dir =
     and_then (perform (ReadDir dir) listing) (\<lambda>dirents. lift (files_in resolve dir dirents))"

definition botPrepareDeploy :: "deploy_env \<Rightarrow> string \<Rightarrow> unit io" where
  "botPrepareDeploy env pathToDeploymentFile =
     perform (WriteFile pathToDeploymentFile (''[config]'' @ [CHR 0x0A] @ ''project = BotProject.csproj''))
             (completed (prepareWrite env))"

text \<open>
  \<open>dotnetPublish\<close> resolves right after starting the copy of the declarative assets: the
  copy's callback can only call \<open>reject\<close> on a promise that is already resolved, so a
  failed copy is not reported.
\<close>

definition dotnetPublish ::
  "config \<Rightarrow> deploy_env \<Rightarrow> string \<Rightarrow> string \<Rightarrow> string option \<Rightarrow> unit io" where
  "dotnetPublish cfg env publishFolder' projFolder botPath =
     seq (perform (Exec (''dotnet publish '' @ dotnetProjectPath cfg @ '' -c release -o ''
                         @ publishFolder' @ '' -v q''))
                  (completed (dotnetPublishExec env)))
     (let remoteBotPath' = path_join env publishFolder' ''ComposerDialogs'';
          localBotPath = path_join env projFolder ''ComposerDialogs''
      in
      case botPath of
        Some p \<Rightarrow>
          if p \<noteq> [] then
            seq (emit (Log DEPLOY_INFO (MText
                   (''Publishing dialogs from external bot project: '' @ p))))
                (emit (Copy p remoteBotPath'))
          else emit (Copy localBotPath remoteBotPath')
      | None \<Rightarrow> emit (Copy localBotPath remoteBotPath'))"

definition zipDirectory :: "deploy_env \<Rightarrow> string \<Rightarrow> string \<Rightarrow> unit io" where
  "zipDirectory env source out = perform (Zip source out) (completed (zipResult env))"

definition notEmptyLuisModel :: "deploy_env \<Rightarrow> string \<Rightarrow> bool io" where
  "notEmptyLuisModel env file =
     and_then (perform (ReadFileSync file) (fileLength env file)) (\<lambda>len. ret (len > 0))"

fun filter_models :: "deploy_env \<Rightarrow> string list \<Rightarrow> string list io" where
  "filter_models env [] = ret []"
| "filter_models env (name # rest) =
     and_then (if ends_with name ''.lu'' then notEmptyLuisModel env name else ret False) (\<lambda>keep.
     and_then (filter_models env rest) (\<lambda>kept.
       ret (if keep then name # kept else kept)))"

fun find_account :: "jsval list \<Rightarrow> string \<Rightarrow> error + jsval" where
  "find_account [] filter' = Inr JUndefined"
| "find_account (account # rest) filter' =
     bind_result (get_member account ''AccountName'') (\<lambda>n.
       if n = JStr filter' then Inr account else find_account rest filter')"

text \<open>
  \<open>getAccount\<close> iterates with \<open>for ... of\<close>: over the elements of an array, over the
  characters of a string; any other value is not iterable and throws.
\<close>

fun getAccount :: "jsval \<Rightarrow> string \<Rightarrow> error + jsval" where
  "getAccount (JArr accounts) filter' = find_account accounts filter'"
| "getAccount (JStr s) filter' = find_account (map (\<lambda>c. JStr [c]) s) filter'"
| "getAccount _ filter' = Inl TypeError"

definition deployZip :: "deploy_env \<Rightarrow> string \<Rightarrow> string \<Rightarrow> string \<Rightarrow> unit io" where
  "deployZip env zipPath' name environment =
     seq (emit (Log DEPLOY_INFO (MText ''Retrieve publishing details ...'')))
     (let userName = name @ ''-'' @ environment;
          userPwd = name @ ''-'' @ environment @ ''-'' @ now env
      in
      and_then (perform (UpdatePublishingUser userName userPwd) (publishingUserResponse env))
        (\<lambda>updateRes.
      seq (emit (Log DEPLOY_INFO (MValue updateRes)))
     (let publishEndpoint =
            ''https://'' @ name @ ''-'' @ environment @ ''.scm.azurewebsites.net/zipdeploy''
      in
      and_then (perform (ReadFile zipPath') (zipRead env)) (\<lambda>fileContent.
      and_then (perform (ZipDeploy publishEndpoint (userName @ '':'' @ userPwd) fileContent)
                        (zipDeployResponse env)) (\<lambda>response.
      emit (Log DEPLOY_INFO (MValue response)))))))"

text \<open>
  \<open>settings.luis = luisConfig\<close> on the parsed deployment settings, as far as the document
  written back can tell. Class bodies are strict code: assigning a property to
  \<open>null\<close> or to a primitive throws. On an array the assignment succeeds, but
  \<open>JSON.stringify\<close> writes only the elements, so the document is unchanged.
\<close>

fun assign_member :: "jsval \<Rightarrow> string \<Rightarrow> jsval \<Rightarrow> error + jsval" where
  "assign_member (JObj kvs) k v = Inr (JObj (set_field k v kvs))"
| "assign_member (JArr xs) k v = Inr (JArr xs)"
| "assign_member _ k v = Inl TypeError"

text \<open>
  \<open>deploy\<close> is given in its three phases: the preparation up to the LUIS credentials,
  the LUIS publishing block (which the source marks as a method of its own to be), and
  packaging and upload.
\<close>

definition deploy_prepare ::
  "config \<Rightarrow> deploy_env \<Rightarrow> string option \<Rightarrow> string option \<Rightarrow> string option \<Rightarrow> string option
   \<Rightarrow> (jsval \<times> jsval \<times> jsval \<times> string) io" where
  "deploy_prepare cfg env luisAuthoringKey luisAuthoringRegion botPath language =
     and_then (perform (PathExists (deployFilePath cfg)) (Inr (deployFileExists env))) (\<lambda>deployFileThere.
     seq (if \<not> deployFileThere then botPrepareDeploy env (deployFilePath cfg) else ret ())
    (and_then (perform (PathExists (zipPath cfg)) (Inr (zipExists env))) (\<lambda>zipThere.
     seq (if zipThere then perform (Remove (zipPath cfg)) (completed (removeZip env)) else ret ())
    (seq (dotnetPublish cfg env (publishFolder cfg) (projPath cfg) botPath)
    (and_then (perform (ReadJson (settingsPath cfg)) (settingsRead env)) (\<lambda>settings.
     and_then (lift (get_member settings ''luis'')) (\<lambda>luisSettings.
     and_then (if \<not> truthy (of_opt luisAuthoringKey) then
                 and_then (lift (get_member luisSettings ''authoringKey'')) (\<lambda>k.
                 and_then (lift (get_member luisSettings ''endpointKey'')) (\<lambda>ek. ret (k, ek)))
               else ret (of_opt luisAuthoringKey, JStr [])) (\<lambda>(key, luisEndpointKey).
     and_then (if \<not> truthy (of_opt luisAuthoringRegion) then
                 lift (get_member luisSettings ''region'')
               else ret (of_opt luisAuthoringRegion)) (\<lambda>region.
     ret (key, luisEndpointKey, region,
          (case language of Some l \<Rightarrow> if l \<noteq> [] then l else ''en-us'' | None \<Rightarrow> ''en-us'')))))))))))"

fun collect_app_ids ::
  "deploy_env \<Rightarrow> string list \<Rightarrow> (string \<times> jsval) list \<Rightarrow> (string \<times> jsval) list io" where
  "collect_app_ids env [] luisAppIds = ret luisAppIds"
| "collect_app_ids env (luisConfigFile # rest) luisAppIds =
     and_then (perform (ReadJson luisConfigFile) (readJsonFile env luisConfigFile)) (\<lambda>luisSettings.
     and_then (lift (get_member luisSettings ''luis'')) (\<lambda>l.
       collect_app_ids env rest (object_assign luisAppIds l)))"

fun assign_accounts ::
  "deploy_env \<Rightarrow> string \<Rightarrow> jsval \<Rightarrow> jsval \<Rightarrow> (string \<times> jsval) list \<Rightarrow> unit io" where
  "assign_accounts env luisEndpoint luisAppIds account [] = ret ()"
| "assign_accounts env luisEndpoint luisAppIds account ((k, luisAppId) # rest) =
     seq (emit (Log DEPLOY_INFO (MText (''Assigning to luis app id: '' @ js_to_string luisAppIds))))
     (let luisAssignEndpoint =
            luisEndpoint @ ''/luis/api/v2.0/apps/'' @ js_to_string luisAppId @ ''/azureaccounts''
      in
      and_then (perform (LuisAssignAccount luisAssignEndpoint account)
                        (assignResponse env luisAssignEndpoint)) (\<lambda>response.
      seq (emit (Log DEPLOY_INFO (MValue response)))
          (assign_accounts env luisEndpoint luisAppIds account rest)))"

definition publishLuis ::
  "config \<Rightarrow> deploy_env \<Rightarrow> string \<Rightarrow> string \<Rightarrow> jsval \<Rightarrow> jsval \<Rightarrow> jsval \<Rightarrow> string \<Rightarrow> unit io" where
  "publishLuis cfg env name environment luisAuthoringKey luisAuthoringRegion luisEndpointKey language =
     and_then (getFiles (path_resolve env) (botDir env) (remoteBotPath cfg)) (\<lambda>botFiles.
     and_then (filter_models env botFiles) (\<lambda>modelFiles.
     and_then (perform (PathExists (generatedFolder cfg)) (Inr (generatedExists env))) (\<lambda>generatedThere.
     seq (if \<not> generatedThere then
            perform (Mkdir (generatedFolder cfg)) (completed (mkdirGenerated env))
          else ret ())
    (and_then (perform (LuLoadContents modelFiles language environment luisAuthoringRegion)
                       (loadContents env)) (\<lambda>loadResult.
     and_then (lift (get_member loadResult ''luContents'')) (\<lambda>luContents.
     and_then (lift (get_member loadResult ''recognizers'')) (\<lambda>recognizers.
     and_then (lift (get_member loadResult ''multiRecognizers'')) (\<lambda>multiRecognizers.
     and_then (lift (get_member loadResult ''settings'')) (\<lambda>loadSettings.
     and_then (perform (LuBuild luisAuthoringKey luisAuthoringRegion name environment language)
                       (buildResult env)) (\<lambda>built.
     seq (perform (LuWriteDialogAssets (generatedFolder cfg)) (completed (writeDialogAssets env)))
    (seq (emit (Log DEPLOY_INFO (MText ''lubuild succeed'')))
    (and_then (getFiles (path_resolve env) (botDirAfterBuild env) (remoteBotPath cfg)) (\<lambda>files.
     let luisConfigFiles = filter (\<lambda>filename. includes_str filename ''luis.settings'') files in
     and_then (collect_app_ids env luisConfigFiles []) (\<lambda>luisAppIds.
     let luisEndpoint =
           ''https://'' @ js_to_string luisAuthoringRegion @ ''.api.cognitive.microsoft.com'';
         luisConfig =
           object_assign [(''endpoint'', JStr luisEndpoint), (''endpointKey'', luisEndpointKey)]
             (JObj luisAppIds)
     in
     and_then (perform (ReadJson (deploymentSettingsPath cfg)) (deploymentSettingsRead env)) (\<lambda>settings.
     and_then (lift (assign_member settings ''luis'' (JObj luisConfig))) (\<lambda>settings'.
     seq (perform (WriteJson (deploymentSettingsPath cfg) (json_doc settings'))
                  (completed (deploymentSettingsWrite env)))
    (let getAccountUri = luisEndpoint @ ''/luis/api/v2.0/azureaccounts'' in
     and_then (perform (LuisGetAccounts getAccountUri luisAuthoringKey) (accountsResponse env))
       (\<lambda>response.
     and_then (lift (parse_json env response)) (\<lambda>jsonRes.
     and_then (lift (getAccount jsonRes (name @ ''-'' @ environment @ ''-luis''))) (\<lambda>account.
     seq (assign_accounts env luisEndpoint (JObj luisAppIds) account luisAppIds)
         (emit (Log DEPLOY_INFO (MText ''Luis Publish Success! ...'')))))))))))))))))))))))"

definition deploy_package :: "config \<Rightarrow> deploy_env \<Rightarrow> string \<Rightarrow> string \<Rightarrow> unit io" where
  "deploy_package cfg env name environment =
     seq (emit (Log DEPLOY_INFO (MText ''Packing up the bot service ...'')))
    (seq (zipDirectory env (publishFolder cfg) (zipPath cfg))
    (seq (emit (Log DEPLOY_INFO (MText ''Packing Service Success!'')))
    (seq (emit (Log DEPLOY_INFO (MText ''Publishing to Azure ...'')))
    (seq (deployZip env (zipPath cfg) name environment)
         (emit (Log DEPLOY_SUCCESS (MText ''Publish To Azure Success!'')))))))"

definition deploy_body ::
  "config \<Rightarrow> deploy_env \<Rightarrow> string \<Rightarrow> string \<Rightarrow> string option \<Rightarrow> string option \<Rightarrow> string option
   \<Rightarrow> string option \<Rightarrow> unit io" where
  "deploy_body cfg env name environment luisAuthoringKey luisAuthoringRegion botPath language =
     and_then (deploy_prepare cfg env luisAuthoringKey luisAuthoringRegion botPath language)
       (\<lambda>(key, luisEndpointKey, region, language').
     seq (if truthy key \<and> truthy region then
            publishLuis cfg env name environment key region luisEndpointKey language'
          else ret ())
         (deploy_package cfg env name environment))"

definition deploy ::
  "config \<Rightarrow> deploy_env \<Rightarrow> string \<Rightarrow> string \<Rightarrow> string option \<Rightarrow> string option \<Rightarrow> string option
   \<Rightarrow> string option \<Rightarrow> unit io" where
  "deploy cfg env name environment luisAuthoringKey luisAuthoringRegion botPath language =
     try_catch
       (deploy_body cfg env name environment luisAuthoringKey luisAuthoringRegion botPath language)
       (\<lambda>error. emit (ConsoleLog error))"

section \<open>The publish page: polling the publish status\<close>

text \<open>
  The effect of the publish page that runs whenever the publish histories or the selected
  bots change. Calls to the dispatchers and state setters are collected in order; a call
  deferred with \<open>setTimeout\<close> is recorded with its delay.
\<close>

record publish_target =
  target_name :: string
  target_type :: string
  lastPublished :: "string option"

record history_item =
  item_status :: int
  item_message :: string
  item_comment :: string
  item_time :: string

record bot_status =
  bot_id :: string
  bot_name :: string
  publishTargets :: "publish_target list option"
  publishTarget :: "string option"
  bot_time :: "string option"
  status :: "int option"
  bot_message :: "string option"
  bot_comment :: "string option"

datatype dispatch =
    GetPublishStatus string publish_target
  | DeleteNotification string
  | AddNotification bot_status
  | SetShowNotifications "(string \<times> bool) list"
  | SetBotStatusList "bot_status list"

datatype ui_event = Now dispatch | After nat dispatch

definition getPublishStatusInterval :: nat where
  "getPublishStatusInterval = 10000"

definition getUpdatedStatus :: "publish_target option \<Rightarrow> string \<Rightarrow> ui_event list" where
  "getUpdatedStatus target botProjectId =
     (case target of
        Some t \<Rightarrow> [After getPublishStatusInterval (GetPublishStatus botProjectId t)]
      | None \<Rightarrow> [])"

definition update_status_item :: "string \<Rightarrow> history_item \<Rightarrow> bot_status \<Rightarrow> bot_status" where
  "update_status_item botProjectId h item =
     (if bot_id item = botProjectId then
        item\<lparr>status := Some (item_status h), bot_comment := Some (item_comment h),
             bot_message := Some (item_message h), bot_time := Some (item_time h)\<rparr>
      else item)"

definition poll_bot ::
  "(string \<times> (string \<times> history_item list) list) list \<Rightarrow> (string \<times> bool) list \<Rightarrow> string option
   \<Rightarrow> bot_status list \<Rightarrow> bot_status \<Rightarrow> ui_event list \<times> bot_status list" where
  "poll_bot botPublishHistoryList showNotifications pendingNotification botStatusList selectedBot =
     (case (publishTarget selectedBot, publishTargets selectedBot) of
        (Some pt, Some targets) \<Rightarrow>
          if pt = [] then ([], botStatusList)
          else
            (case find (\<lambda>target. target_name target = pt) targets of
               None \<Rightarrow> ([], botStatusList)
             | Some selectedTarget \<Rightarrow>
                 let botProjectId = bot_id selectedBot;
                     botPublishHistory =
                       (case find (\<lambda>publishHistory. fst publishHistory = botProjectId)
                               botPublishHistoryList of
                          None \<Rightarrow> None
                        | Some publishHistory \<Rightarrow> map_of (snd publishHistory) pt)
                 in
                 (case botPublishHistory of
                    None \<Rightarrow> ([], botStatusList)
                  | Some history \<Rightarrow>
                      if length history > 0 then
                        (let h = history ! 0;
                             calls =
                               (if item_status h = 202 then
                                  getUpdatedStatus (Some selectedTarget) botProjectId
                                else if item_status h = 200 \<or> item_status h = 500 then
                                  (if map_of showNotifications (bot_id selectedBot) = Some True then
                                     (case pendingNotification of
                                        Some n \<Rightarrow> [Now (DeleteNotification n)]
                                      | None \<Rightarrow> [])
                                     @ [Now (AddNotification (selectedBot\<lparr>status := Some (item_status h)\<rparr>)),
                                        Now (SetShowNotifications
                                               (AList.update botProjectId False showNotifications))]
                                   else [])
                                else if truthy (of_opt (lastPublished selectedTarget))
                                        \<and> length history = 0 then
                                  [Now (GetPublishStatus botProjectId selectedTarget)]
                                else []);
                             botStatusList' = map (update_status_item botProjectId h) botStatusList
                         in (calls @ [Now (SetBotStatusList botStatusList')], botStatusList'))
                      else ([], botStatusList)))
      | _ \<Rightarrow> ([], botStatusList))"

fun poll_bots ::
  "(string \<times> (string \<times> history_item list) list) list \<Rightarrow> (string \<times> bool) list \<Rightarrow> string option
   \<Rightarrow> bot_status list \<Rightarrow> bot_status list \<Rightarrow> ui_event list" where
  "poll_bots botPublishHistoryList showNotifications pendingNotification botStatusList [] = []"
| "poll_bots botPublishHistoryList showNotifications pendingNotification botStatusList (selectedBot # selectedBots) =
     (case poll_bot botPublishHistoryList showNotifications pendingNotification botStatusList selectedBot of
        (calls, botStatusList') \<Rightarrow>
          calls @ poll_bots botPublishHistoryList showNotifications pendingNotification
                    botStatusList' selectedBots)"

definition fetches_status :: "ui_event \<Rightarrow> bool" where
  "fetches_status ev =
     (case ev of
        Now (GetPublishStatus _ _) \<Rightarrow> True
      | After _ (GetPublishStatus _ _) \<Rightarrow> True
      | _ \<Rightarrow> False)"

section \<open>Sample inputs\<close>

text \<open>
  A project, a provisioning run in which every call succeeds against a settings file that
  carries an application id and one further key, and variations of it.
\<close>

definition sample_config :: config where
  "sample_config =
     \<lparr> subId = ''sub'', credsToken = ''tok'', projPath = ''/proj'',
       deploymentSettingsPath = ''/proj/bin/appsettings.deployment.json'',
       deployFilePath = ''/proj/.deployment'', zipPath = ''/proj/code.zip'',
       publishFolder = ''/proj/bin'', settingsPath = ''/proj/appsettings.deployment.json'',
       templatePath = ''/proj/template.json'', dotnetProjectPath = ''/proj/BotProject.csproj'',
       generatedFolder = ''/proj/bin/ComposerDialogs/generated'',
       remoteBotPath = ''/proj/bin/ComposerDialogs'' \<rparr>"

definition sample_create_env :: create_env where
  "sample_create_env =
     \<lparr> settingsExists = True,
       settingsJson = Inr (JObj [(''MicrosoftAppId'', JStr ''app-1''), (''customKey'', JStr ''keep'')]),
       registerResponse = Inr (JObj [(''appId'', JStr ''new-app'')]),
       timeStamp = ''1600000000000'',
       groupResponse = Inr (JObj [(''name'', JStr ''mybot-dev'')]),
       templateForValidate = Inr ''{}'',
       templateForDeploy = Inr ''{}'',
       json_parse = (\<lambda>s. Inr (JObj [])),
       validateResponse = Inr (JObj []),
       deployResponse = Inr \<lparr> response_status = 200, response_body = JObj [] \<rparr>,
       outputsResponse =
         Inr (JObj [(''properties'',
                JObj [(''outputs'', JObj [(''endpoint'', JObj [(''value'', JStr ''https://x'')])])])]),
       writeFileErr = None,
       operationsResponse = Inr (JArr []) \<rparr>"

definition sample_invalid_env :: create_env where
  "sample_invalid_env =
     sample_create_env
       \<lparr> validateResponse :=
           Inr (JObj [(''error'', JObj [(''message'', JStr ''InvalidTemplate'')])]) \<rparr>"

definition sample_unwritable_env :: create_env where
  "sample_unwritable_env = sample_create_env \<lparr> writeFileErr := Some (Failure ''EACCES'') \<rparr>"

definition sample_fresh_env :: create_env where
  "sample_fresh_env = sample_create_env \<lparr> settingsJson := Inr (JObj []) \<rparr>"

text \<open>
  A publishing run in which every call succeeds: the LUIS credentials come from the
  settings file, one model is built, and the deployed settings carry an application id, an
  older LUIS section and one further key.
\<close>

definition sample_deploy_env :: deploy_env where
  "sample_deploy_env =
     \<lparr> deployFileExists = False,
       prepareWrite = None,
       zipExists = True,
       removeZip = None,
       dotnetPublishExec = None,
       path_join = (\<lambda>a b. a @ ''/'' @ b),
       path_resolve = (\<lambda>a b. a @ ''/'' @ b),
       settingsRead =
         Inr (JObj [(''luis'', JObj [(''authoringKey'', JStr ''akey''),
                                     (''endpointKey'', JStr ''ekey''),
                                     (''region'', JStr ''westus'')])]),
       botDir = Inr [FileEntry ''main.lu'', DirEntry ''dialogs'' [FileEntry ''a.dialog'']],
       fileLength = (\<lambda>f. Inr 12),
       generatedExists = False,
       mkdirGenerated = None,
       loadContents = Inr (JObj []),
       buildResult = Inr (JObj []),
       writeDialogAssets = None,
       botDirAfterBuild =
         Inr [FileEntry ''main.lu'', DirEntry ''generated'' [FileEntry ''luis.settings.dev.json'']],
       readJsonFile = (\<lambda>f. Inr (JObj [(''luis'', JObj [(''main_lu'', JStr ''id-1'')])])),
       deploymentSettingsRead =
         Inr (JObj [(''MicrosoftAppId'', JStr ''app-1''),
                    (''luis'', JObj [(''endpoint'', JStr ''old'')]),
                    (''customKey'', JStr ''keep'')]),
       deploymentSettingsWrite = None,
       accountsResponse = Inr ''[]'',
       parse_json = (\<lambda>s. Inr (JArr [JObj [(''AccountName'', JStr ''mybot-dev-luis'')]])),
       assignResponse = (\<lambda>uri. Inr JNull),
       zipResult = None,
       publishingUserResponse = Inr (JObj []),
       now = ''1600000000000'',
       zipRead = Inr ''PK'',
       zipDeployResponse = Inr (JStr []) \<rparr>"

definition sample_failing_deploy_env :: deploy_env where
  "sample_failing_deploy_env =
     sample_deploy_env \<lparr> dotnetPublishExec := Some (Failure ''dotnet publish failed'') \<rparr>"

definition sample_keyless_deploy_env :: deploy_env where
  "sample_keyless_deploy_env =
     sample_deploy_env \<lparr> settingsRead := Inr (JObj [(''luis'', JObj [(''region'', JStr ''westus'')])]) \<rparr>"

definition sample_unreadable_deploy_env :: deploy_env where
  "sample_unreadable_deploy_env =
     sample_deploy_env \<lparr> settingsRead := Inl (Failure ''ENOENT'') \<rparr>"

section \<open>The outcome of the provisioning steps\<close>





definition settings_update_raises :: "create_env \<Rightarrow> bool" where
  "settings_update_raises env =
     (case outputsResponse env of
        Inl _ \<Rightarrow> True
      | Inr outputs \<Rightarrow>
          (let outputResult = opt_member (opt_member outputs ''properties'') ''outputs'' in
           truthy outputResult \<and>
           (case unpackObject outputResult of
              Inl _ \<Rightarrow> True
            | Inr _ \<Rightarrow> writeFileErr env \<noteq> None)))"

section \<open>Properties of traces\<close>

definition emits_only :: "(event \<Rightarrow> bool) \<Rightarrow> 'a io \<Rightarrow> bool" where
  "emits_only P m = list_all P (snd m)"

text \<open>The resource group an Azure call is addressed to.\<close>

fun resource_group_of :: "event \<Rightarrow> string option" where
  "resource_group_of (ResourceGroupsCreateOrUpdate rg _) = Some rg"
| "resource_group_of (DeploymentsValidate rg _ _) = Some rg"
| "resource_group_of (DeploymentsCreateOrUpdate rg _ _) = Some rg"
| "resource_group_of (DeploymentsGet rg _) = Some rg"
| "resource_group_of (DeploymentOperationsList rg _) = Some rg"
| "resource_group_of _ = None"

text \<open>
  An event names the group \<open>g\<close> when, if it is an Azure call, it is addressed to \<open>g\<close> and,
  if it is a logged remediation hint, the hint is the one for \<open>g\<close>.
\<close>

definition names_group :: "string \<Rightarrow> event \<Rightarrow> bool" where
  "names_group g ev =
     ((case resource_group_of ev of Some rg \<Rightarrow> rg = g | None \<Rightarrow> True) \<and>
      (case ev of
         Log _ (MText s) \<Rightarrow> (if take 11 s = ''+ To delete'' then s = delete_hint g else True)
       | _ \<Rightarrow> True))"

text \<open>
  What \<open>createDeployment\<close> does: its opening log line and the deployment request.
\<close>

definition is_deployment_call :: "event \<Rightarrow> bool" where
  "is_deployment_call ev =
     (case ev of
        DeploymentsCreateOrUpdate _ _ _ \<Rightarrow> True
      | Log _ (MText s) \<Rightarrow> s = ''> Deploying Azure services (this could take a while)...''
      | _ \<Rightarrow> False)"

definition is_validate_call :: "event \<Rightarrow> bool" where
  "is_validate_call ev = (case ev of DeploymentsValidate _ _ _ \<Rightarrow> True | _ \<Rightarrow> False)"

text \<open>
  The diagnostics of \<open>create\<close> begin with the listing of the deployment operations and
  log lines that start with "! Deployment failed".
\<close>

definition is_diagnostic :: "event \<Rightarrow> bool" where
  "is_diagnostic ev =
     (case ev of
        DeploymentOperationsList _ _ \<Rightarrow> True
      | Log _ (MText s) \<Rightarrow> take 19 s = ''! Deployment failed''
      | _ \<Rightarrow> False)"

text \<open>
  The kinds of event that, within \<open>deploy\<close>, only the LUIS publishing block produces:
  scanning the bot folder, the LUIS build, the rewrite of the deployed settings, and the
  two LUIS account calls.
\<close>

definition luis_publisher_event :: "event \<Rightarrow> bool" where
  "luis_publisher_event ev =
     (case ev of
        ReadDir _ \<Rightarrow> True
      | ReadFileSync _ \<Rightarrow> True
      | Mkdir _ \<Rightarrow> True
      | LuLoadContents _ _ _ _ \<Rightarrow> True
      | LuBuild _ _ _ _ _ \<Rightarrow> True
      | LuWriteDialogAssets _ \<Rightarrow> True
      | WriteJson _ _ \<Rightarrow> True
      | LuisGetAccounts _ _ \<Rightarrow> True
      | LuisAssignAccount _ _ \<Rightarrow> True
      | _ \<Rightarrow> False)"

text \<open>
  The steps of \<open>deploy\<close> before the LUIS block complete: the deployment descriptor is
  there or can be written, a stale archive is absent or can be removed, the build
  succeeds, the settings file can be read and its \<open>luis\<close> section looked up, and each
  credential that is not given explicitly can be read from that section.
\<close>

definition preparation_completes :: "deploy_env \<Rightarrow> string option \<Rightarrow> string option \<Rightarrow> bool" where
  "preparation_completes env luisAuthoringKey luisAuthoringRegion =
     ((deployFileExists env \<or> prepareWrite env = None) \<and>
      (\<not> zipExists env \<or> removeZip env = None) \<and>
      dotnetPublishExec env = None \<and>
      (case settingsRead env of
         Inl _ \<Rightarrow> False
       | Inr settings \<Rightarrow>
           (case get_member settings ''luis'' of
              Inl _ \<Rightarrow> False
            | Inr luisSettings \<Rightarrow>
                (truthy (of_opt luisAuthoringKey) \<or>
                 (case get_member luisSettings ''authoringKey'' of
                    Inl _ \<Rightarrow> False
                  | Inr _ \<Rightarrow>
                      (case get_member luisSettings ''endpointKey'' of
                         Inl _ \<Rightarrow> False
                       | Inr _ \<Rightarrow> True)))
                \<and> (truthy (of_opt luisAuthoringRegion) \<or>
                   (case get_member luisSettings ''region'' of Inl _ \<Rightarrow> False | Inr _ \<Rightarrow> True)))))"

definition is_write_json :: "event \<Rightarrow> bool" where
  "is_write_json ev = (case ev of WriteJson _ _ \<Rightarrow> True | _ \<Rightarrow> False)"

text \<open>
  A rewrite of the deployed settings by \<open>deploy\<close>: the document \<open>doc\<close> is written to the
  deployment settings path, and against the document read from there (a parsed JSON
  value) it differs in the \<open>luis\<close> key only. A document that is an array is written
  back as it was.
\<close>

definition rewrites_luis_only :: "config \<Rightarrow> deploy_env \<Rightarrow> string \<Rightarrow> jsval \<Rightarrow> bool" where
  "rewrites_luis_only cfg env path doc =
     (path = deploymentSettingsPath cfg \<and>
      (\<exists>before. deploymentSettingsRead env = Inr before \<and>
         (is_json before \<longrightarrow>
            (case before of
               JObj kvs \<Rightarrow>
                 (\<exists>kvs' c'. doc = JObj kvs' \<and> map_of kvs' ''luis'' = Some (JObj c')
                    \<and> (\<forall>k. k \<noteq> ''luis'' \<longrightarrow> map_of kvs' k = map_of kvs k))
             | _ \<Rightarrow> doc = before))))"

text \<open>
  A rewrite of the settings by \<open>create\<close>: the document \<open>doc\<close> is written to the settings
  path, the deployment has outputs, and \<open>doc\<close> is the unpacked outputs overlaid with the
  application id and password; its keys are names of deployment outputs or one of the two
  identity keys.
\<close>

definition replaces_settings ::
  "config \<Rightarrow> create_env \<Rightarrow> string option \<Rightarrow> string \<Rightarrow> jsval \<Rightarrow> bool" where
  "replaces_settings cfg env appPassword path doc =
     (path = settingsPath cfg \<and>
      (\<exists>outputs outputObj appId fields.
         outputsResponse env = Inr outputs \<and>
         truthy (opt_member (opt_member outputs ''properties'') ''outputs'') \<and>
         unpackObject (opt_member (opt_member outputs ''properties'') ''outputs'') = Inr outputObj \<and>
         doc = json_doc (JObj (object_assign (object_assign [] outputObj)
                 (JObj [(''MicrosoftAppId'', appId), (''MicrosoftAppPassword'', of_opt appPassword)]))) \<and>
         doc = JObj fields \<and>
         (\<forall>k \<in> fst ` set fields.
            k \<in> fst ` set (enumerable (opt_member (opt_member outputs ''properties'') ''outputs''))
            \<or> k = ''MicrosoftAppId'' \<or> k = ''MicrosoftAppPassword'')))"

text \<open>
  A selected bot whose target carries a \<open>lastPublished\<close> time stamp and whose publish
  history for that target is empty.
\<close>

definition sample_target :: publish_target where
  "sample_target =
     \<lparr> target_name = ''production'', target_type = ''azurePublish'',
       lastPublished = Some ''2020-09-01T10:00:00.000Z'' \<rparr>"

definition sample_bot :: bot_status where
  "sample_bot =
     \<lparr> bot_id = ''bot-1'', bot_name = ''mybot'', publishTargets = Some [sample_target],
       publishTarget = Some ''production'', bot_time = None, status = None,
       bot_message = None, bot_comment = None \<rparr>"

section \<open>Verified properties\<close>

subsection \<open>The effect combinators\<close>

lemma fst_ret: "fst (ret a) = Inr a" and snd_ret: "snd (ret a) = []"
  by (simp_all add: ret_def)

lemma fst_lift: "fst (lift r) = r" and snd_lift: "snd (lift r) = []"
  by (simp_all add: lift_def)

lemma fst_perform: "fst (perform ev r) = r" and snd_perform: "snd (perform ev r) = [ev]"
  by (simp_all add: perform_def)

lemma fst_emit: "fst (emit ev) = Inr ()" and snd_emit: "snd (emit ev) = [ev]"
  by (simp_all add: emit_def)

lemma fst_and_then:
  "fst (and_then m f) = (case fst m of Inl e \<Rightarrow> Inl e | Inr a \<Rightarrow> fst (f a))"
  by (simp add: and_then_def split: prod.splits sum.splits)

lemma snd_and_then:
  "snd (and_then m f) = (case fst m of Inl e \<Rightarrow> snd m | Inr a \<Rightarrow> snd m @ snd (f a))"
  by (simp add: and_then_def split: prod.splits sum.splits)

lemma fst_seq: "fst (seq m n) = (case fst m of Inl e \<Rightarrow> Inl e | Inr a \<Rightarrow> fst n)"
  by (simp add: seq_def fst_and_then)

lemma snd_seq: "snd (seq m n) = (case fst m of Inl e \<Rightarrow> snd m | Inr a \<Rightarrow> snd m @ snd n)"
  by (simp add: seq_def snd_and_then)

lemmas io_simps = fst_ret snd_ret fst_lift snd_lift fst_perform snd_perform fst_emit snd_emit
  fst_and_then snd_and_then fst_seq snd_seq

lemma emits_only_ret: "emits_only P (ret a)" and emits_only_lift: "emits_only P (lift r)"
  by (simp_all add: emits_only_def io_simps)

lemma emits_only_perform: "P ev \<Longrightarrow> emits_only P (perform ev r)"
  and emits_only_emit: "P ev \<Longrightarrow> emits_only P (emit ev)"
  by (simp_all add: emits_only_def io_simps)

lemma emits_only_and_then:
  "emits_only P m \<Longrightarrow> (\<And>a. fst m = Inr a \<Longrightarrow> emits_only P (f a))
   \<Longrightarrow> emits_only P (and_then m f)"
  by (simp add: emits_only_def snd_and_then split: sum.splits)

lemma emits_only_seq:
  "emits_only P m \<Longrightarrow> (fst m = Inr () \<Longrightarrow> emits_only P n) \<Longrightarrow> emits_only P (seq m n)"
  by (simp add: seq_def emits_only_and_then)

lemma emits_only_if:
  "(c \<Longrightarrow> emits_only P m) \<Longrightarrow> (\<not> c \<Longrightarrow> emits_only P n)
   \<Longrightarrow> emits_only P (if c then m else n)"
  by simp

lemmas emits_only_intros = emits_only_ret emits_only_lift emits_only_perform emits_only_emit
  emits_only_and_then emits_only_seq emits_only_if

subsection \<open>Template parameters\<close>

lemma set_field_fresh: "k \<notin> fst ` set al \<Longrightarrow> set_field k v al = al @ [(k, v)]"
  unfolding set_field_def by (induction al) auto

lemma get_member_pack: "get_member (pack x) ''value'' = Inr x"
  by (simp add: pack_def)

lemma unpack_loop_packed:
  "distinct (map fst kvs) \<Longrightarrow> fst ` set kvs \<inter> fst ` set acc = {} \<Longrightarrow>
   unpack_loop acc (map (\<lambda>(k, x). (k, pack x)) kvs)
     = Inr (acc @ filter (\<lambda>(k, x). truthy x) kvs)"
proof (induction kvs arbitrary: acc)
  case Nil
  then show ?case by simp
next
  case (Cons kv kvs)
  obtain k x where kv: "kv = (k, x)" by (cases kv)
  from Cons.prems have fresh: "k \<notin> fst ` set acc" and d: "distinct (map fst kvs)"
    and nk: "k \<notin> fst ` set kvs" and dis: "fst ` set kvs \<inter> fst ` set acc = {}"
    by (auto simp: kv)
  show ?case
  proof (cases "truthy x")
    case True
    have "fst ` set kvs \<inter> fst ` set (acc @ [(k, x)]) = {}"
      using nk dis by auto
    from Cons.IH [OF d this] True fresh show ?thesis
      by (simp add: kv get_member_pack set_field_fresh)
  next
    case False
    from Cons.IH [OF d dis] False show ?thesis
      by (simp add: kv get_member_pack)
  qed
qed

text \<open>
  C7 (as amended). Each of the five template parameters built by
  \<open>getDeploymentTemplateParam\<close> is its argument wrapped by \<open>pack\<close> as \<open>{value: X}\<close>.
  \<open>unpackObject\<close> applied to an object whose fields are wrapped values returns the
  fields whose value is truthy and leaves the others out; so it gives back the original
  mapping exactly when every wrapped value is truthy.
\<close>

theorem unpack_after_pack:
  "getDeploymentTemplateParam appId appPwd location name shouldCreate =
     JObj (map (\<lambda>(k, x). (k, pack x))
       [(''appId'', appId), (''appSecret'', appPwd), (''appServicePlanLocation'', JStr location),
        (''botId'', JStr name), (''shouldCreateAuthoringResource'', JBool shouldCreate)])
   \<and> (distinct (map fst kvs) \<longrightarrow>
        unpackObject (JObj (map (\<lambda>(k, x). (k, pack x)) kvs))
          = Inr (JObj (filter (\<lambda>(k, x). truthy x) kvs)))
   \<and> (distinct (map fst kvs) \<and> list_all (\<lambda>(k, x). truthy x) kvs \<longrightarrow>
        unpackObject (JObj (map (\<lambda>(k, x). (k, pack x)) kvs)) = Inr (JObj kvs))"
proof -
  have wrapped: "distinct (map fst kvs) \<Longrightarrow>
      unpackObject (JObj (map (\<lambda>(k, x). (k, pack x)) kvs))
        = Inr (JObj (filter (\<lambda>(k, x). truthy x) kvs))"
    by (simp add: unpackObject_def unpack_loop_packed)
  have "list_all (\<lambda>(k, x). truthy x) kvs \<Longrightarrow> filter (\<lambda>(k, x). truthy x) kvs = kvs"
    by (induction kvs) auto
  with wrapped show ?thesis
    by (simp add: getDeploymentTemplateParam_def)
qed

theorem unpack_after_pack_witness:
  "distinct (map fst [(''endpoint'', JStr ''https://x''), (''flag'', JBool False)])
   \<and> unpackObject (JObj [(''endpoint'', pack (JStr ''https://x'')), (''flag'', pack (JBool False))])
       = Inr (JObj [(''endpoint'', JStr ''https://x'')])
   \<and> list_all (\<lambda>(k, x). truthy x) [(''endpoint'', JStr ''https://x'')]
   \<and> unpackObject (JObj [(''endpoint'', pack (JStr ''https://x''))])
       = Inr (JObj [(''endpoint'', JStr ''https://x'')])"
  using unpack_after_pack [of JNull JNull "[]" "[]" False
          "[(''endpoint'', JStr ''https://x''), (''flag'', JBool False)]"]
        unpack_after_pack [of JNull JNull "[]" "[]" False "[(''endpoint'', JStr ''https://x'')]"]
  by simp

theorem unpack_after_pack_counterexample:
  "unpackObject (getDeploymentTemplateParam (JStr ''id'') (JStr ''pw'') ''westus'' ''bot'' False)
     \<noteq> Inr (JObj [(''appId'', JStr ''id''), (''appSecret'', JStr ''pw''),
                 (''appServicePlanLocation'', JStr ''westus''), (''botId'', JStr ''bot''),
                 (''shouldCreateAuthoringResource'', JBool False)])"
  by (simp add: unpackObject_def getDeploymentTemplateParam_def pack_def set_field_def)

subsection \<open>Provisioning: the resource group name\<close>

lemma names_group_report: "emits_only (names_group g) (report_operations ops)"
proof (induction ops)
  case Nil
  show ?case by (simp add: emits_only_ret)
next
  case (Cons operation rest)
  show ?case
    unfolding report_operations.simps
    by (intro emits_only_intros Cons.IH) (simp_all add: names_group_def)
qed

lemma names_group_diagnose: "emits_only (names_group g) (diagnose env g ts)"
  unfolding diagnose_def
  by (intro emits_only_intros)
     (auto simp: names_group_def emits_only_lift names_group_report
           intro!: emits_only_intros split: jsval.splits)

lemma names_group_update:
  "emits_only (names_group g) (updateDeploymentJsonFile env p g ts a pw)"
  unfolding updateDeploymentJsonFile_def Let_def
  by (intro emits_only_intros) (simp_all add: names_group_def)

lemma names_group_update_settings:
  "emits_only (names_group g) (create_update_settings cfg env g ts a pw)"
  unfolding create_update_settings_def
  by (intro emits_only_intros names_group_update names_group_diagnose)
     (simp_all add: names_group_def)

lemma names_group_deploy:
  "emits_only (names_group g) (create_deploy cfg env loc g ts a pw params verr)"
  unfolding create_deploy_def createDeployment_def
  by (intro emits_only_intros names_group_update_settings)
     (simp_all add: names_group_def delete_hint_def)

lemma names_group_resources:
  "emits_only (names_group (name @ ''-'' @ environment))
     (create_resources cfg env name loc environment pw key a)"
  unfolding create_resources_def createResourceGroup_def validateDeployment_def Let_def
  by (intro emits_only_intros names_group_deploy) (simp_all add: names_group_def delete_hint_def)

text \<open>
  C9. For every name and environment passed to \<open>create\<close>, every Azure call of the run
  that takes a resource group (group creation, validation, deployment, the fetch of the
  outputs, the listing of operations) is addressed to \<open>name + "-" + environment\<close>, and
  every remediation hint that is logged names that group.
\<close>

theorem create_resource_group_name:
  "\<forall>ev \<in> set (snd (create cfg env name location environment appPassword luisAuthoringKey)).
     names_group (name @ ''-'' @ environment) ev"
proof -
  have "emits_only (names_group (name @ ''-'' @ environment))
          (create cfg env name location environment appPassword luisAuthoringKey)"
    unfolding create_def createApp_def
    by (intro emits_only_intros names_group_resources) (simp_all add: names_group_def)
  then show ?thesis by (simp add: emits_only_def list_all_iff)
qed

theorem create_resource_group_name_witness:
  "ResourceGroupsCreateOrUpdate ''mybot-dev'' ''westus''
     \<in> set (snd (create sample_config sample_create_env ''mybot'' ''westus'' ''dev'' (Some ''pw'') None))
   \<and> names_group (''mybot'' @ ''-'' @ ''dev'') (ResourceGroupsCreateOrUpdate ''mybot-dev'' ''westus'')"
proof -
  have mem: "ResourceGroupsCreateOrUpdate ''mybot-dev'' ''westus''
     \<in> set (snd (create sample_config sample_create_env ''mybot'' ''westus'' ''dev'' (Some ''pw'') None))"
    by code_simp
  from create_resource_group_name mem
  have "names_group (''mybot'' @ ''-'' @ ''dev'') (ResourceGroupsCreateOrUpdate ''mybot-dev'' ''westus'')"
    by blast
  with mem show ?thesis by simp
qed

subsection \<open>Provisioning: failed validation\<close>

lemma get_member_fails: "get_member v k = Inl x \<Longrightarrow> \<not> truthy v"
  by (cases v) auto

lemma no_deploy_resources:
  assumes "validateResponse env = Inr v" "get_member v ''error'' = Inr e" "truthy e"
  shows "emits_only (\<lambda>ev. \<not> is_deployment_call ev)
           (create_resources cfg env name loc environment pw key a)"
  unfolding create_resources_def createResourceGroup_def validateDeployment_def Let_def
  apply (intro emits_only_intros)
  using assms apply (simp_all add: is_deployment_call_def delete_hint_def io_simps split: sum.splits)
  done

lemma resources_false:
  assumes "validateResponse env = Inr v" "get_member v ''error'' = Inr e" "truthy e"
    and "ev \<in> set (snd (create_resources cfg env name loc environment pw key a))"
    and "is_validate_call ev"
  shows "fst (create_resources cfg env name loc environment pw key a) = Inr (JBool False)"
  using assms
  unfolding create_resources_def createResourceGroup_def validateDeployment_def Let_def
  by (auto simp: io_simps is_validate_call_def split: sum.splits dest: get_member_fails)

lemma no_deploy_create:
  assumes "validateResponse env = Inr v" "get_member v ''error'' = Inr e" "truthy e"
  shows "emits_only (\<lambda>ev. \<not> is_deployment_call ev) (create cfg env name loc environment pw key)"
  unfolding create_def createApp_def
  by (intro emits_only_intros no_deploy_resources [OF assms]) (simp_all add: is_deployment_call_def)

lemma create_false:
  assumes "validateResponse env = Inr v" "get_member v ''error'' = Inr e" "truthy e"
    and "ev \<in> set (snd (create cfg env name loc environment pw key))"
    and "is_validate_call ev"
  shows "fst (create cfg env name loc environment pw key) = Inr (JBool False)"
  using assms(4,5) resources_false [OF assms(1-3) _ assms(5), of cfg name loc environment pw key]
  unfolding create_def createApp_def
  by (auto simp: io_simps is_validate_call_def split: sum.splits if_splits)

text \<open>
  C2. In every run of \<open>create\<close> in which \<open>validateDeployment\<close> is called and returns a
  result whose \<open>error\<close> field is set (truthy, as the error object of the SDK's response
  is), \<open>create\<close> returns \<open>false\<close> and
  \<open>createDeployment\<close> is not called: the run contains neither its opening log line nor
  a deployment request.
\<close>

theorem create_validation_error:
  assumes "validateResponse env = Inr validation"
    and "get_member validation ''error'' = Inr validationError"
    and "truthy validationError"
    and "DeploymentsValidate g ts param
           \<in> set (snd (create cfg env name location environment appPassword luisAuthoringKey))"
  shows "fst (create cfg env name location environment appPassword luisAuthoringKey) = Inr (JBool False)
         \<and> (\<forall>ev \<in> set (snd (create cfg env name location environment appPassword luisAuthoringKey)).
               \<not> is_deployment_call ev)"
proof
  show "fst (create cfg env name location environment appPassword luisAuthoringKey) = Inr (JBool False)"
    by (rule create_false [OF assms(1-4)]) (simp add: is_validate_call_def)
  from no_deploy_create [OF assms(1-3)]
  show "\<forall>ev \<in> set (snd (create cfg env name location environment appPassword luisAuthoringKey)).
          \<not> is_deployment_call ev"
    by (simp add: emits_only_def list_all_iff)
qed

theorem create_validation_error_witness:
  "validateResponse sample_invalid_env
     = Inr (JObj [(''error'', JObj [(''message'', JStr ''InvalidTemplate'')])])
   \<and> get_member (JObj [(''error'', JObj [(''message'', JStr ''InvalidTemplate'')])]) ''error''
       = Inr (JObj [(''message'', JStr ''InvalidTemplate'')])
   \<and> truthy (JObj [(''message'', JStr ''InvalidTemplate'')])
   \<and> DeploymentsValidate ''mybot-dev'' ''1600000000000''
        (deployParam (JObj [])
           (getDeploymentTemplateParam (JStr ''app-1'') (JStr ''pw'') ''westus'' ''mybot'' True))
       \<in> set (snd (create sample_config sample_invalid_env ''mybot'' ''westus'' ''dev'' (Some ''pw'') None))
   \<and> fst (create sample_config sample_invalid_env ''mybot'' ''westus'' ''dev'' (Some ''pw'') None)
       = Inr (JBool False)
   \<and> \<not> is_deployment_call
         (DeploymentsValidate ''mybot-dev'' ''1600000000000''
            (deployParam (JObj [])
               (getDeploymentTemplateParam (JStr ''app-1'') (JStr ''pw'') ''westus'' ''mybot'' True)))"
proof -
  have h1: "validateResponse sample_invalid_env
     = Inr (JObj [(''error'', JObj [(''message'', JStr ''InvalidTemplate'')])])"
    by (simp add: sample_invalid_env_def)
  have h2: "get_member (JObj [(''error'', JObj [(''message'', JStr ''InvalidTemplate'')])]) ''error''
       = Inr (JObj [(''message'', JStr ''InvalidTemplate'')])"
    by simp
  have h3: "truthy (JObj [(''message'', JStr ''InvalidTemplate'')])"
    by simp
  have h4: "DeploymentsValidate ''mybot-dev'' ''1600000000000''
        (deployParam (JObj [])
           (getDeploymentTemplateParam (JStr ''app-1'') (JStr ''pw'') ''westus'' ''mybot'' True))
       \<in> set (snd (create sample_config sample_invalid_env ''mybot'' ''westus'' ''dev'' (Some ''pw'') None))"
    by code_simp
  from create_validation_error [OF h1 h2 h3 h4] h1 h2 h3 h4 show ?thesis
    by blast
qed

subsection \<open>Provisioning: no identity and no password\<close>

text \<open>
  C3 (as amended). When the settings document has no (or a falsy) \<open>MicrosoftAppId\<close> and
  the \<open>appPassword\<close> argument is absent or empty, \<open>create\<close> returns \<open>undefined\<close> (the
  bare \<open>return\<close>), and the whole run consists of the existence check, the read of the
  settings and the log line "App password is required": no application is registered and
  nothing is provisioned.
\<close>

theorem create_without_identity:
  assumes "settingsExists env"
    and "settingsJson env = Inr settings"
    and "get_member settings ''MicrosoftAppId'' = Inr appId"
    and "\<not> truthy appId"
    and "\<not> truthy (of_opt appPassword)"
  shows "create cfg env name location environment appPassword luisAuthoringKey =
           (Inr JUndefined,
            [ExistsSync (settingsPath cfg), ReadJson (settingsPath cfg),
             Log PROVISION_INFO (MText ''App password is required'')])"
  using assms unfolding create_def
  by (simp add: and_then_def seq_def perform_def lift_def emit_def ret_def)

theorem create_without_identity_witness:
  "settingsExists sample_fresh_env
   \<and> settingsJson sample_fresh_env = Inr (JObj [])
   \<and> get_member (JObj []) ''MicrosoftAppId'' = Inr JUndefined
   \<and> \<not> truthy JUndefined
   \<and> \<not> truthy (of_opt (Some []))
   \<and> create sample_config sample_fresh_env ''mybot'' ''westus'' ''dev'' (Some []) None =
       (Inr JUndefined,
        [ExistsSync (settingsPath sample_config), ReadJson (settingsPath sample_config),
         Log PROVISION_INFO (MText ''App password is required'')])"
proof -
  have h1: "settingsExists sample_fresh_env"
    and h2: "settingsJson sample_fresh_env = Inr (JObj [])"
    by (simp_all add: sample_fresh_env_def sample_create_env_def)
  have h3: "get_member (JObj []) ''MicrosoftAppId'' = Inr JUndefined"
    and h4: "\<not> truthy JUndefined"
    and h5: "\<not> truthy (of_opt (Some []))"
    by simp_all
  from create_without_identity [OF h1 h2 h3 h4 h5] h1 h2 h3 h4 h5 show ?thesis
    by blast
qed

theorem create_without_identity_counterexample:
  "settingsJson sample_fresh_env = Inr (JObj [])
   \<and> get_member (JObj []) ''MicrosoftAppId'' = Inr JUndefined
   \<and> fst (create sample_config sample_fresh_env ''mybot'' ''westus'' ''dev'' None None)
       = Inr JUndefined
   \<and> fst (create sample_config sample_fresh_env ''mybot'' ''westus'' ''dev'' None None)
       \<noteq> Inr (JBool False)"
  by code_simp

subsection \<open>Provisioning: the settings update and the returned value\<close>

lemma update_raises:
  "settings_update_raises env \<Longrightarrow> \<exists>e. fst (updateDeploymentJsonFile env p g ts a pw) = Inl e"
  unfolding updateDeploymentJsonFile_def settings_update_raises_def Let_def
  by (auto simp: io_simps split: sum.splits option.splits)

lemma update_resolves:
  "\<not> settings_update_raises env \<Longrightarrow>
   \<exists>fields. fst (updateDeploymentJsonFile env p g ts a pw) = Inr (JObj fields)"
  unfolding updateDeploymentJsonFile_def settings_update_raises_def Let_def
  by (auto simp: io_simps split: sum.splits option.splits)

lemma update_result:
  "fst (updateDeploymentJsonFile env p g ts a pw) = Inr r \<Longrightarrow>
   truthy r \<and>
   (case outputsResponse env of
      Inl _ \<Rightarrow> False
    | Inr outputs \<Rightarrow>
        (let outputResult = opt_member (opt_member outputs ''properties'') ''outputs'' in
         if truthy outputResult then
           (case unpackObject outputResult of
              Inl _ \<Rightarrow> False
            | Inr outputObj \<Rightarrow>
                r = JObj (object_assign (object_assign [] outputObj)
                      (JObj [(''MicrosoftAppId'', a), (''MicrosoftAppPassword'', pw)])))
         else r = JObj []))"
  unfolding updateDeploymentJsonFile_def Let_def
  by (auto simp: io_simps split: sum.splits option.splits if_splits)








lemma no_diag_update:
  "emits_only (\<lambda>ev. \<not> is_diagnostic ev) (updateDeploymentJsonFile env p g ts a pw)"
  unfolding updateDeploymentJsonFile_def Let_def
  by (intro emits_only_intros) (simp_all add: is_diagnostic_def)

lemma no_diag_update_settings:
  "emits_only (\<lambda>ev. \<not> is_diagnostic ev) (create_update_settings cfg env g ts a pw)"
  unfolding create_update_settings_def
  apply (intro emits_only_intros no_diag_update)
      apply (simp_all add: is_diagnostic_def delete_hint_def)
  apply (auto dest: update_result)
  done

lemma no_diag_deploy:
  "emits_only (\<lambda>ev. \<not> is_diagnostic ev) (create_deploy cfg env loc g ts a pw params verr)"
  unfolding create_deploy_def createDeployment_def
  by (intro emits_only_intros no_diag_update_settings)
     (simp_all add: is_diagnostic_def delete_hint_def)

lemma no_diag_resources:
  "emits_only (\<lambda>ev. \<not> is_diagnostic ev)
     (create_resources cfg env name loc environment pw key a)"
  unfolding create_resources_def createResourceGroup_def validateDeployment_def Let_def
  by (intro emits_only_intros no_diag_deploy) (simp_all add: is_diagnostic_def delete_hint_def)

lemma no_diag_create:
  "emits_only (\<lambda>ev. \<not> is_diagnostic ev) (create cfg env name loc environment pw key)"
  unfolding create_def createApp_def
  by (intro emits_only_intros no_diag_resources) (simp_all add: is_diagnostic_def)




text \<open>
  C10 (as amended). \<open>updateDeploymentJsonFile\<close> never resolves to a falsy value: it
  raises when the outputs cannot be fetched, or exist and cannot be unpacked or written;
  otherwise it resolves to an object, the merged result when deployment outputs exist and
  the empty object otherwise. A raise leaves \<open>create\<close> before the test of the result, so
  in \<open>create\<close> the diagnostic branch that lists and classifies the failed deployment
  operations is never entered.
\<close>

theorem settings_update_truthy:
  "(settings_update_raises env \<longrightarrow>
      (\<exists>e. fst (updateDeploymentJsonFile env path g ts appId appPwd) = Inl e))
   \<and> (\<not> settings_update_raises env \<longrightarrow>
        (\<exists>fields. fst (updateDeploymentJsonFile env path g ts appId appPwd) = Inr (JObj fields)))
   \<and> (\<forall>r. fst (updateDeploymentJsonFile env path g ts appId appPwd) = Inr r \<longrightarrow>
        truthy r \<and>
        (case outputsResponse env of
           Inl _ \<Rightarrow> False
         | Inr outputs \<Rightarrow>
             (let outputResult = opt_member (opt_member outputs ''properties'') ''outputs'' in
              if truthy outputResult then
                (case unpackObject outputResult of
                   Inl _ \<Rightarrow> False
                 | Inr outputObj \<Rightarrow>
                     r = JObj (object_assign (object_assign [] outputObj)
                           (JObj [(''MicrosoftAppId'', appId), (''MicrosoftAppPassword'', appPwd)])))
              else r = JObj [])))
   \<and> (\<forall>ev \<in> set (snd (create cfg env name location environment appPassword luisAuthoringKey)).
         \<not> is_diagnostic ev)"
proof (intro conjI)
  show "settings_update_raises env \<longrightarrow>
      (\<exists>e. fst (updateDeploymentJsonFile env path g ts appId appPwd) = Inl e)"
    by (blast intro: update_raises)
  show "\<not> settings_update_raises env \<longrightarrow>
        (\<exists>fields. fst (updateDeploymentJsonFile env path g ts appId appPwd) = Inr (JObj fields))"
    by (blast intro: update_resolves)
  show "\<forall>r. fst (updateDeploymentJsonFile env path g ts appId appPwd) = Inr r \<longrightarrow>
        truthy r \<and>
        (case outputsResponse env of
           Inl _ \<Rightarrow> False
         | Inr outputs \<Rightarrow>
             (let outputResult = opt_member (opt_member outputs ''properties'') ''outputs'' in
              if truthy outputResult then
                (case unpackObject outputResult of
                   Inl _ \<Rightarrow> False
                 | Inr outputObj \<Rightarrow>
                     r = JObj (object_assign (object_assign [] outputObj)
                           (JObj [(''MicrosoftAppId'', appId), (''MicrosoftAppPassword'', appPwd)])))
              else r = JObj []))"
    using update_result [of env path g ts appId appPwd] by blast
  from no_diag_create [of cfg env name location environment appPassword luisAuthoringKey]
  show "\<forall>ev \<in> set (snd (create cfg env name location environment appPassword luisAuthoringKey)).
         \<not> is_diagnostic ev"
    by (simp add: emits_only_def list_all_iff)
qed

theorem settings_update_truthy_witness:
  "\<not> settings_update_raises sample_create_env
   \<and> fst (updateDeploymentJsonFile sample_create_env ''/proj/appsettings.deployment.json''
            ''mybot-dev'' ''1600000000000'' (JStr ''app-1'') (JStr ''pw''))
       = Inr (JObj [(''endpoint'', JStr ''https://x''), (''MicrosoftAppId'', JStr ''app-1''),
                   (''MicrosoftAppPassword'', JStr ''pw'')])
   \<and> truthy (JObj [(''endpoint'', JStr ''https://x''), (''MicrosoftAppId'', JStr ''app-1''),
                  (''MicrosoftAppPassword'', JStr ''pw'')])
   \<and> settings_update_raises sample_unwritable_env
   \<and> (\<exists>e. fst (updateDeploymentJsonFile sample_unwritable_env ''/proj/appsettings.deployment.json''
            ''mybot-dev'' ''1600000000000'' (JStr ''app-1'') (JStr ''pw'')) = Inl e)
   \<and> DeploymentsGet ''mybot-dev'' ''1600000000000''
        \<in> set (snd (create sample_config sample_create_env ''mybot'' ''westus'' ''dev'' (Some ''pw'') None))
   \<and> \<not> is_diagnostic (DeploymentsGet ''mybot-dev'' ''1600000000000'')"
proof -
  have ok: "\<not> settings_update_raises sample_create_env"
    and bad: "settings_update_raises sample_unwritable_env"
    by code_simp+
  have res: "fst (updateDeploymentJsonFile sample_create_env ''/proj/appsettings.deployment.json''
            ''mybot-dev'' ''1600000000000'' (JStr ''app-1'') (JStr ''pw''))
       = Inr (JObj [(''endpoint'', JStr ''https://x''), (''MicrosoftAppId'', JStr ''app-1''),
                   (''MicrosoftAppPassword'', JStr ''pw'')])"
    by code_simp
  have mem: "DeploymentsGet ''mybot-dev'' ''1600000000000''
        \<in> set (snd (create sample_config sample_create_env ''mybot'' ''westus'' ''dev'' (Some ''pw'') None))"
    by code_simp
  note thm1 = settings_update_truthy [of sample_create_env "''/proj/appsettings.deployment.json''"
      "''mybot-dev''" "''1600000000000''" "JStr ''app-1''" "JStr ''pw''" sample_config
      "''mybot''" "''westus''" "''dev''" "Some ''pw''" None]
  note thm2 = settings_update_truthy [of sample_unwritable_env
      "''/proj/appsettings.deployment.json''" "''mybot-dev''" "''1600000000000''"
      "JStr ''app-1''" "JStr ''pw''" sample_config "''mybot''" "''westus''" "''dev''" "Some ''pw''" None]
  from thm1 res have r1: "truthy (JObj [(''endpoint'', JStr ''https://x''),
      (''MicrosoftAppId'', JStr ''app-1''), (''MicrosoftAppPassword'', JStr ''pw'')])"
    by blast
  from thm2 bad have r2: "\<exists>e. fst (updateDeploymentJsonFile sample_unwritable_env
      ''/proj/appsettings.deployment.json'' ''mybot-dev'' ''1600000000000'' (JStr ''app-1'')
      (JStr ''pw'')) = Inl e"
    by blast
  from thm1 mem have r3: "\<not> is_diagnostic (DeploymentsGet ''mybot-dev'' ''1600000000000'')"
    by blast
  from ok bad res r1 r2 r3 mem show ?thesis by blast
qed

theorem settings_update_truthy_counterexample:
  "fst (updateDeploymentJsonFile sample_unwritable_env ''/proj/appsettings.deployment.json''
          ''mybot-dev'' ''1600000000000'' (JStr ''app-1'') (JStr ''pw''))
     = Inl (Failure ''EACCES'')"
  by code_simp

subsection \<open>Publishing: exceptions stay inside \<open>deploy\<close>\<close>

lemma emits_only_case_prod:
  "(\<And>a b. x = (a, b) \<Longrightarrow> emits_only P (f a b)) \<Longrightarrow> emits_only P (case x of (a, b) \<Rightarrow> f a b)"
  by (cases x) simp

lemma emits_only_case_option:
  "(x = None \<Longrightarrow> emits_only P m) \<Longrightarrow> (\<And>a. x = Some a \<Longrightarrow> emits_only P (f a))
   \<Longrightarrow> emits_only P (case x of None \<Rightarrow> m | Some a \<Rightarrow> f a)"
  by (cases x) simp_all

lemma emits_only_set: "emits_only P m \<Longrightarrow> ev \<in> set (snd m) \<Longrightarrow> P ev"
  by (simp add: emits_only_def list_all_iff)

lemma emits_only_mono: "emits_only P m \<Longrightarrow> (\<And>ev. P ev \<Longrightarrow> Q ev) \<Longrightarrow> emits_only Q m"
  by (auto simp: emits_only_def list_all_iff)

lemma fst_try_catch:
  "fst (try_catch m h) = (case fst m of Inl e \<Rightarrow> fst (h e) | Inr a \<Rightarrow> Inr a)"
  by (simp add: try_catch_def split: prod.splits sum.splits)

lemma snd_try_catch:
  "snd (try_catch m h) = (case fst m of Inl e \<Rightarrow> snd m @ snd (h e) | Inr a \<Rightarrow> snd m)"
  by (simp add: try_catch_def split: prod.splits sum.splits)

lemma deploy_trace:
  "snd (deploy cfg env name environment key region botPath language) =
     (case fst (deploy_body cfg env name environment key region botPath language) of
        Inl e \<Rightarrow>
          snd (deploy_body cfg env name environment key region botPath language) @ [ConsoleLog e]
      | Inr _ \<Rightarrow> snd (deploy_body cfg env name environment key region botPath language))"
  by (simp add: deploy_def snd_try_catch snd_emit split: sum.splits)

text \<open>
  C5. \<open>deploy\<close> never propagates an exception: for every input and whatever any
  internal step answers, it returns normally. When a step of its body raises, the run is
  the body's run up to that step followed by the \<open>console.log\<close> of the exception.
\<close>

theorem deploy_never_raises:
  "fst (deploy cfg env name environment luisAuthoringKey luisAuthoringRegion botPath language) = Inr ()
   \<and> (\<forall>e. fst (deploy_body cfg env name environment luisAuthoringKey luisAuthoringRegion botPath
                 language) = Inl e \<longrightarrow>
          snd (deploy cfg env name environment luisAuthoringKey luisAuthoringRegion botPath language)
            = snd (deploy_body cfg env name environment luisAuthoringKey luisAuthoringRegion botPath
                     language) @ [ConsoleLog e])"
  by (simp add: deploy_def fst_try_catch snd_try_catch fst_emit snd_emit split: sum.splits)

theorem deploy_never_raises_witness:
  "fst (deploy_body sample_config sample_failing_deploy_env ''mybot'' ''dev'' None None None None)
     = Inl (Failure ''dotnet publish failed'')
   \<and> fst (deploy sample_config sample_failing_deploy_env ''mybot'' ''dev'' None None None None) = Inr ()
   \<and> snd (deploy sample_config sample_failing_deploy_env ''mybot'' ''dev'' None None None None)
       = snd (deploy_body sample_config sample_failing_deploy_env ''mybot'' ''dev'' None None None None)
         @ [ConsoleLog (Failure ''dotnet publish failed'')]"
proof -
  have raised: "fst (deploy_body sample_config sample_failing_deploy_env ''mybot'' ''dev''
      None None None None) = Inl (Failure ''dotnet publish failed'')"
    by code_simp
  from deploy_never_raises [of sample_config sample_failing_deploy_env "''mybot''" "''dev''"
      None None None None] raised
  show ?thesis by blast
qed

subsection \<open>Publishing: the gate of the LUIS block\<close>

lemma prepare_no_luis:
  "emits_only (\<lambda>ev. \<not> luis_publisher_event ev)
     (deploy_prepare cfg env key region botPath language)"
  unfolding deploy_prepare_def botPrepareDeploy_def dotnetPublish_def Let_def
  by (intro emits_only_intros emits_only_case_prod emits_only_case_option)
     (simp_all add: luis_publisher_event_def)

lemma package_no_luis:
  "emits_only (\<lambda>ev. \<not> luis_publisher_event ev) (deploy_package cfg env name environment)"
  unfolding deploy_package_def zipDirectory_def deployZip_def Let_def
  by (intro emits_only_intros) (simp_all add: luis_publisher_event_def)

lemma mem_and_then_left: "ev \<in> set (snd m) \<Longrightarrow> ev \<in> set (snd (and_then m f))"
  by (simp add: snd_and_then split: sum.splits)

lemma publishLuis_starts:
  "ReadDir (remoteBotPath cfg) \<in> set (snd (publishLuis cfg env name environment key region ek l))"
  unfolding publishLuis_def getFiles_def
  by (rule mem_and_then_left) (simp add: io_simps split: sum.splits)

lemma gate_closed:
  assumes "ev \<in> set (snd (deploy cfg env name environment key region botPath language))"
    and "luis_publisher_event ev"
  shows "\<exists>k ek r l. fst (deploy_prepare cfg env key region botPath language) = Inr (k, ek, r, l)
           \<and> truthy k \<and> truthy r"
proof (rule ccontr)
  assume neg: "\<not> ?thesis"
  let ?p = "deploy_prepare cfg env key region botPath language"
  let ?k = "deploy_package cfg env name environment"
  have body: "set (snd (deploy_body cfg env name environment key region botPath language))
      \<subseteq> set (snd ?p) \<union> set (snd ?k)"
    using neg unfolding deploy_body_def
    by (auto simp: io_simps split: sum.splits prod.splits if_splits)
  from assms(1)
  have "ev \<in> set (snd (deploy_body cfg env name environment key region botPath language))
      \<or> (\<exists>e. ev = ConsoleLog e)"
    by (auto simp: deploy_trace split: sum.splits)
  with assms(2)
  have "ev \<in> set (snd (deploy_body cfg env name environment key region botPath language))"
    by (auto simp: luis_publisher_event_def)
  with body have "ev \<in> set (snd ?p) \<or> ev \<in> set (snd ?k)" by blast
  with assms(2) emits_only_set [OF prepare_no_luis] emits_only_set [OF package_no_luis]
  show False by blast
qed

lemma gate_open:
  assumes "fst (deploy_prepare cfg env key region botPath language) = Inr (k, ek, r, l)"
    and "truthy k" "truthy r"
  shows "ReadDir (remoteBotPath cfg)
           \<in> set (snd (deploy cfg env name environment key region botPath language))"
proof -
  have "ReadDir (remoteBotPath cfg)
      \<in> set (snd (deploy_body cfg env name environment key region botPath language))"
    using assms publishLuis_starts [of cfg env name environment k r ek l]
    unfolding deploy_body_def
    by (auto simp: io_simps split: sum.splits)
  then show ?thesis by (auto simp: deploy_trace split: sum.splits)
qed

lemma prepare_credentials:
  assumes "fst (deploy_prepare cfg env key region botPath language) = Inr (k, ek, r, l)"
  shows "\<exists>settings luisSettings.
           settingsRead env = Inr settings \<and> get_member settings ''luis'' = Inr luisSettings \<and>
           (if truthy (of_opt key) then k = of_opt key
            else get_member luisSettings ''authoringKey'' = Inr k) \<and>
           (if truthy (of_opt region) then r = of_opt region
            else get_member luisSettings ''region'' = Inr r)"
  using assms unfolding deploy_prepare_def
  by (auto simp: io_simps split: sum.splits if_splits prod.splits)

lemma fst_dotnetPublish:
  "fst (dotnetPublish cfg env pf proj botPath) = completed (dotnetPublishExec env)"
  unfolding dotnetPublish_def Let_def
  by (cases "dotnetPublishExec env") (auto simp: io_simps split: option.splits)

lemma fst_botPrepareDeploy: "fst (botPrepareDeploy env p) = completed (prepareWrite env)"
  by (simp add: botPrepareDeploy_def io_simps)

lemma prepare_completes:
  "(\<exists>x. fst (deploy_prepare cfg env key region botPath language) = Inr x)
     = preparation_completes env key region"
  unfolding deploy_prepare_def preparation_completes_def
  by (cases "prepareWrite env"; cases "removeZip env"; cases "dotnetPublishExec env")
     (auto simp: io_simps fst_dotnetPublish fst_botPrepareDeploy split: sum.splits)

text \<open>
  C6 (as amended). In \<open>deploy\<close> the LUIS publishing block runs if and only if the steps
  before it complete and both an authoring key and an authoring region are known. The
  steps before it are the deployment descriptor, the removal of a stale archive, the build
  and the read of the settings file with its \<open>luis\<close> section, which happens whether or
  not the credentials are passed explicitly. The key is the explicit argument when that is
  non-empty and the \<open>authoringKey\<close> of the \<open>luis\<close> section otherwise, and likewise the
  region. The run contains an event of the block (in particular the account fetch or an
  account assignment) exactly when those steps have completed with both credentials
  truthy, and then the block's first action, the scan of the bot folder, is in the run.
  When they complete with a credential missing, the block is skipped as a whole: the run
  of the body is the steps before the block followed at once by packaging and upload. When
  one of them fails, nothing of the block happens either.
\<close>

theorem luis_publisher_gate:
  "((\<exists>ev \<in> set (snd (deploy cfg env name environment luisAuthoringKey luisAuthoringRegion botPath
                        language)). luis_publisher_event ev)
      = (\<exists>k ek r l. fst (deploy_prepare cfg env luisAuthoringKey luisAuthoringRegion botPath language)
                     = Inr (k, ek, r, l) \<and> truthy k \<and> truthy r))
   \<and> ((\<exists>x. fst (deploy_prepare cfg env luisAuthoringKey luisAuthoringRegion botPath language) = Inr x)
        = preparation_completes env luisAuthoringKey luisAuthoringRegion)
   \<and> (\<forall>k ek r l. fst (deploy_prepare cfg env luisAuthoringKey luisAuthoringRegion botPath language)
                    = Inr (k, ek, r, l) \<and> truthy k \<and> truthy r \<longrightarrow>
          ReadDir (remoteBotPath cfg)
            \<in> set (snd (deploy cfg env name environment luisAuthoringKey luisAuthoringRegion botPath
                         language))
          \<and> luis_publisher_event (ReadDir (remoteBotPath cfg)))
   \<and> (\<forall>k ek r l. fst (deploy_prepare cfg env luisAuthoringKey luisAuthoringRegion botPath language)
                    = Inr (k, ek, r, l) \<longrightarrow>
          (\<exists>settings luisSettings.
             settingsRead env = Inr settings \<and> get_member settings ''luis'' = Inr luisSettings \<and>
             (if truthy (of_opt luisAuthoringKey) then k = of_opt luisAuthoringKey
              else get_member luisSettings ''authoringKey'' = Inr k) \<and>
             (if truthy (of_opt luisAuthoringRegion) then r = of_opt luisAuthoringRegion
              else get_member luisSettings ''region'' = Inr r)))
   \<and> (\<forall>k ek r l t. deploy_prepare cfg env luisAuthoringKey luisAuthoringRegion botPath language
                      = (Inr (k, ek, r, l), t) \<and> \<not> (truthy k \<and> truthy r) \<longrightarrow>
          deploy_body cfg env name environment luisAuthoringKey luisAuthoringRegion botPath language
            = (fst (deploy_package cfg env name environment),
               t @ snd (deploy_package cfg env name environment)))"
proof (intro conjI)
  have entered: "\<forall>k ek r l. fst (deploy_prepare cfg env luisAuthoringKey luisAuthoringRegion botPath language)
                    = Inr (k, ek, r, l) \<and> truthy k \<and> truthy r \<longrightarrow>
          ReadDir (remoteBotPath cfg)
            \<in> set (snd (deploy cfg env name environment luisAuthoringKey luisAuthoringRegion botPath
                         language))
          \<and> luis_publisher_event (ReadDir (remoteBotPath cfg))"
    by (auto intro: gate_open simp: luis_publisher_event_def)
  then show "\<forall>k ek r l. fst (deploy_prepare cfg env luisAuthoringKey luisAuthoringRegion botPath language)
                    = Inr (k, ek, r, l) \<and> truthy k \<and> truthy r \<longrightarrow>
          ReadDir (remoteBotPath cfg)
            \<in> set (snd (deploy cfg env name environment luisAuthoringKey luisAuthoringRegion botPath
                         language))
          \<and> luis_publisher_event (ReadDir (remoteBotPath cfg))" .
  show "(\<exists>ev \<in> set (snd (deploy cfg env name environment luisAuthoringKey luisAuthoringRegion botPath
                        language)). luis_publisher_event ev)
      = (\<exists>k ek r l. fst (deploy_prepare cfg env luisAuthoringKey luisAuthoringRegion botPath language)
                     = Inr (k, ek, r, l) \<and> truthy k \<and> truthy r)"
  proof
    assume "\<exists>ev \<in> set (snd (deploy cfg env name environment luisAuthoringKey luisAuthoringRegion
                              botPath language)). luis_publisher_event ev"
    then show "\<exists>k ek r l. fst (deploy_prepare cfg env luisAuthoringKey luisAuthoringRegion botPath
                              language) = Inr (k, ek, r, l) \<and> truthy k \<and> truthy r"
      by (blast dest: gate_closed)
  next
    assume "\<exists>k ek r l. fst (deploy_prepare cfg env luisAuthoringKey luisAuthoringRegion botPath
                          language) = Inr (k, ek, r, l) \<and> truthy k \<and> truthy r"
    with entered
    show "\<exists>ev \<in> set (snd (deploy cfg env name environment luisAuthoringKey luisAuthoringRegion
                            botPath language)). luis_publisher_event ev"
      by blast
  qed
  show "(\<exists>x. fst (deploy_prepare cfg env luisAuthoringKey luisAuthoringRegion botPath language) = Inr x)
        = preparation_completes env luisAuthoringKey luisAuthoringRegion"
    by (rule prepare_completes)
  show "\<forall>k ek r l t. deploy_prepare cfg env luisAuthoringKey luisAuthoringRegion botPath language
                      = (Inr (k, ek, r, l), t) \<and> \<not> (truthy k \<and> truthy r) \<longrightarrow>
          deploy_body cfg env name environment luisAuthoringKey luisAuthoringRegion botPath language
            = (fst (deploy_package cfg env name environment),
               t @ snd (deploy_package cfg env name environment))"
    by (auto simp: deploy_body_def and_then_def seq_def ret_def split: prod.splits sum.splits)
  show "\<forall>k ek r l. fst (deploy_prepare cfg env luisAuthoringKey luisAuthoringRegion botPath language)
                    = Inr (k, ek, r, l) \<longrightarrow>
          (\<exists>settings luisSettings.
             settingsRead env = Inr settings \<and> get_member settings ''luis'' = Inr luisSettings \<and>
             (if truthy (of_opt luisAuthoringKey) then k = of_opt luisAuthoringKey
              else get_member luisSettings ''authoringKey'' = Inr k) \<and>
             (if truthy (of_opt luisAuthoringRegion) then r = of_opt luisAuthoringRegion
              else get_member luisSettings ''region'' = Inr r))"
    by (blast dest: prepare_credentials)
qed

theorem luis_publisher_gate_witness:
  "fst (deploy_prepare sample_config sample_deploy_env None None None None)
     = Inr (JStr ''akey'', JStr ''ekey'', JStr ''westus'', ''en-us'')
   \<and> truthy (JStr ''akey'') \<and> truthy (JStr ''westus'')
   \<and> ReadDir (remoteBotPath sample_config)
       \<in> set (snd (deploy sample_config sample_deploy_env ''mybot'' ''dev'' None None None None))
   \<and> fst (deploy_prepare sample_config sample_keyless_deploy_env None None None None)
       = Inr (JUndefined, JUndefined, JStr ''westus'', ''en-us'')
   \<and> \<not> (\<exists>ev \<in> set (snd (deploy sample_config sample_keyless_deploy_env ''mybot'' ''dev''
                            None None None None)). luis_publisher_event ev)
   \<and> \<not> (truthy JUndefined \<and> truthy (JStr ''westus''))
   \<and> deploy_body sample_config sample_keyless_deploy_env ''mybot'' ''dev'' None None None None
       = (fst (deploy_package sample_config sample_keyless_deploy_env ''mybot'' ''dev''),
          snd (deploy_prepare sample_config sample_keyless_deploy_env None None None None)
          @ snd (deploy_package sample_config sample_keyless_deploy_env ''mybot'' ''dev''))
   \<and> (\<exists>settings luisSettings.
         settingsRead sample_deploy_env = Inr settings
         \<and> get_member settings ''luis'' = Inr luisSettings
         \<and> get_member luisSettings ''authoringKey'' = Inr (JStr ''akey'')
         \<and> get_member luisSettings ''region'' = Inr (JStr ''westus''))
   \<and> preparation_completes sample_deploy_env None None
   \<and> \<not> preparation_completes sample_unreadable_deploy_env (Some ''akey'') (Some ''westus'')
   \<and> \<not> (\<exists>ev \<in> set (snd (deploy sample_config sample_unreadable_deploy_env ''mybot'' ''dev''
                            (Some ''akey'') (Some ''westus'') None None)). luis_publisher_event ev)"
proof -
  have p1: "fst (deploy_prepare sample_config sample_deploy_env None None None None)
     = Inr (JStr ''akey'', JStr ''ekey'', JStr ''westus'', ''en-us'')"
    by code_simp
  have p2: "fst (deploy_prepare sample_config sample_keyless_deploy_env None None None None)
       = Inr (JUndefined, JUndefined, JStr ''westus'', ''en-us'')"
    by code_simp
  have t: "truthy (JStr ''akey'')" "truthy (JStr ''westus'')" by simp_all
  from luis_publisher_gate [of sample_config sample_deploy_env "''mybot''" "''dev''"
      None None None None] p1 t
  have r1: "ReadDir (remoteBotPath sample_config)
       \<in> set (snd (deploy sample_config sample_deploy_env ''mybot'' ''dev'' None None None None))"
    by blast
  have r2: "\<not> (\<exists>ev \<in> set (snd (deploy sample_config sample_keyless_deploy_env ''mybot'' ''dev''
                            None None None None)). luis_publisher_event ev)"
  proof
    assume "\<exists>ev \<in> set (snd (deploy sample_config sample_keyless_deploy_env ''mybot'' ''dev''
                            None None None None)). luis_publisher_event ev"
    with luis_publisher_gate [of sample_config sample_keyless_deploy_env "''mybot''" "''dev''"
      None None None None]
    obtain k ek r l
      where "fst (deploy_prepare sample_config sample_keyless_deploy_env None None None None)
               = Inr (k, ek, r, l)" and "truthy k"
      by blast
    with p2 show False by simp
  qed
  have p2': "deploy_prepare sample_config sample_keyless_deploy_env None None None None
      = (Inr (JUndefined, JUndefined, JStr ''westus'', ''en-us''),
         snd (deploy_prepare sample_config sample_keyless_deploy_env None None None None))"
    using p2 by (metis prod.collapse)
  have f: "\<not> (truthy JUndefined \<and> truthy (JStr ''westus''))" by simp
  from luis_publisher_gate [of sample_config sample_keyless_deploy_env "''mybot''" "''dev''"
      None None None None] p2' f
  have r3: "deploy_body sample_config sample_keyless_deploy_env ''mybot'' ''dev'' None None None None
       = (fst (deploy_package sample_config sample_keyless_deploy_env ''mybot'' ''dev''),
          snd (deploy_prepare sample_config sample_keyless_deploy_env None None None None)
          @ snd (deploy_package sample_config sample_keyless_deploy_env ''mybot'' ''dev''))"
    by blast
  from luis_publisher_gate [of sample_config sample_deploy_env "''mybot''" "''dev''"
      None None None None] p1
  have r4: "\<exists>settings luisSettings.
         settingsRead sample_deploy_env = Inr settings
         \<and> get_member settings ''luis'' = Inr luisSettings
         \<and> get_member luisSettings ''authoringKey'' = Inr (JStr ''akey'')
         \<and> get_member luisSettings ''region'' = Inr (JStr ''westus'')"
    by (auto simp del: get_member.simps)
  have c1: "preparation_completes sample_deploy_env None None"
    and c2: "\<not> preparation_completes sample_unreadable_deploy_env (Some ''akey'') (Some ''westus'')"
    by code_simp+
  have r5: "\<not> (\<exists>ev \<in> set (snd (deploy sample_config sample_unreadable_deploy_env ''mybot'' ''dev''
                            (Some ''akey'') (Some ''westus'') None None)). luis_publisher_event ev)"
    using luis_publisher_gate [of sample_config sample_unreadable_deploy_env "''mybot''" "''dev''"
      "Some ''akey''" "Some ''westus''" None None] c2
    by blast
  from p1 p2 t r1 r2 f r3 r4 c1 c2 r5 show ?thesis by blast
qed

theorem luis_publisher_gate_counterexample:
  "truthy (of_opt (Some ''akey'')) \<and> truthy (of_opt (Some ''westus''))
   \<and> settingsRead sample_unreadable_deploy_env = Inl (Failure ''ENOENT'')
   \<and> \<not> (\<exists>ev \<in> set (snd (deploy sample_config sample_unreadable_deploy_env ''mybot'' ''dev''
                             (Some ''akey'') (Some ''westus'') None None)). luis_publisher_event ev)
   \<and> snd (deploy sample_config sample_unreadable_deploy_env ''mybot'' ''dev''
             (Some ''akey'') (Some ''westus'') None None)
       = [PathExists ''/proj/.deployment'',
          WriteFile ''/proj/.deployment'' (''[config]'' @ [CHR 0x0A] @ ''project = BotProject.csproj''),
          PathExists ''/proj/code.zip'', Remove ''/proj/code.zip'',
          Exec ''dotnet publish /proj/BotProject.csproj -c release -o /proj/bin -v q'',
          Copy ''/proj/ComposerDialogs'' ''/proj/bin/ComposerDialogs'',
          ReadJson ''/proj/appsettings.deployment.json'',
          ConsoleLog (Failure ''ENOENT'')]"
  by code_simp

subsection \<open>Rewrites of the settings documents\<close>

lemma writes_mono:
  "emits_only (\<lambda>ev. \<not> is_write_json ev) m \<Longrightarrow>
   emits_only (\<lambda>ev. case ev of WriteJson p d \<Rightarrow> Q p d | _ \<Rightarrow> True) m"
  by (erule emits_only_mono) (simp add: is_write_json_def split: event.splits)

lemma no_write_filter_models: "emits_only (\<lambda>ev. \<not> is_write_json ev) (filter_models env fs)"
proof (induction fs)
  case Nil
  show ?case by (simp add: emits_only_ret)
next
  case (Cons f fs)
  show ?case
    unfolding filter_models.simps notEmptyLuisModel_def
    by (intro emits_only_intros Cons.IH) (simp_all add: is_write_json_def)
qed

lemma no_write_collect: "emits_only (\<lambda>ev. \<not> is_write_json ev) (collect_app_ids env fs acc)"
proof (induction fs arbitrary: acc)
  case Nil
  show ?case by (simp add: emits_only_ret)
next
  case (Cons f fs)
  show ?case
    unfolding collect_app_ids.simps
    by (intro emits_only_intros Cons.IH) (simp_all add: is_write_json_def)
qed

lemma no_write_assign:
  "emits_only (\<lambda>ev. \<not> is_write_json ev) (assign_accounts env ep ids account todo)"
proof (induction todo)
  case Nil
  show ?case by (simp add: emits_only_ret)
next
  case (Cons kv todo)
  obtain k v where kv: "kv = (k, v)" by (cases kv)
  show ?case
    unfolding kv assign_accounts.simps Let_def
    by (intro emits_only_intros Cons.IH) (simp_all add: is_write_json_def)
qed

lemma map_of_map_values:
  "map_of (map (\<lambda>kv. (fst kv, f (snd kv))) xs) k = map_option f (map_of xs k)"
  by (induction xs) auto

lemma json_doc_id: "is_json v \<Longrightarrow> json_doc v = v"
proof (induction v)
  case (JArr xs)
  then have "\<forall>x \<in> set xs. x \<noteq> JUndefined \<and> json_doc x = x"
    by (auto simp: list_all_iff)
  then have "map (\<lambda>x. if x = JUndefined then JNull else json_doc x) xs = xs"
    by (induction xs) auto
  then show ?case by simp
next
  case (JObj kvs)
  then have all: "\<forall>kv \<in> set kvs. snd kv \<noteq> JUndefined \<and> json_doc (snd kv) = snd kv"
    by (fastforce simp: list_all_iff snds.simps)
  then have "filter (\<lambda>kv. snd kv \<noteq> JUndefined) kvs = kvs"
    by (induction kvs) auto
  moreover from all have "map (\<lambda>kv. (fst kv, json_doc (snd kv))) kvs = kvs"
    by (induction kvs) auto
  ultimately show ?case by simp
qed simp_all

lemma luis_frame:
  assumes "assign_member before ''luis'' (JObj c) = Inr after" and "is_json before"
  shows "case before of
           JObj kvs \<Rightarrow>
             (\<exists>kvs' c'. json_doc after = JObj kvs' \<and> map_of kvs' ''luis'' = Some (JObj c')
                \<and> (\<forall>k. k \<noteq> ''luis'' \<longrightarrow> map_of kvs' k = map_of kvs k))
         | _ \<Rightarrow> json_doc after = before"
proof (cases before)
  case (JObj kvs)
  with assms(1) have after: "after = JObj (AList.update ''luis'' (JObj c) kvs)"
    by (simp add: set_field_def)
  from assms(2) JObj
  have vals: "\<forall>kv \<in> set kvs. snd kv \<noteq> JUndefined \<and> json_doc (snd kv) = snd kv"
    by (auto simp: list_all_iff json_doc_id)
  have "\<forall>kv \<in> set (AList.update ''luis'' (JObj c) kvs). snd kv \<noteq> JUndefined"
    using vals by (induction kvs) auto
  then have flt: "filter (\<lambda>kv. snd kv \<noteq> JUndefined) (AList.update ''luis'' (JObj c) kvs)
      = AList.update ''luis'' (JObj c) kvs"
    by (simp add: filter_id_conv)
  let ?kvs' = "map (\<lambda>kv. (fst kv, json_doc (snd kv))) (AList.update ''luis'' (JObj c) kvs)"
  have doc: "json_doc after = JObj ?kvs'"
    by (simp add: after flt)
  have l: "\<exists>c'. map_of ?kvs' ''luis'' = Some (JObj c')"
    by (simp add: map_of_map_values AList.update_conv')
  have "\<forall>k. k \<noteq> ''luis'' \<longrightarrow> map_of ?kvs' k = map_of kvs k"
  proof (intro allI impI)
    fix k :: string
    assume "k \<noteq> ''luis''"
    then have "map_of ?kvs' k = map_option json_doc (map_of kvs k)"
      by (simp add: map_of_map_values AList.update_conv')
    also have "\<dots> = map_of kvs k"
    proof (cases "map_of kvs k")
      case None
      then show ?thesis by simp
    next
      case (Some v)
      then have "(k, v) \<in> set kvs" by (rule map_of_SomeD)
      with vals have "json_doc v = v" by force
      with Some show ?thesis by simp
    qed
    finally show "map_of ?kvs' k = map_of kvs k" .
  qed
  with doc l JObj show ?thesis by auto
next
  case (JArr xs)
  with assms(1) have "after = before" by simp
  with json_doc_id [OF assms(2)] have "json_doc after = before" by metis
  with JArr show ?thesis by (simp del: json_doc.simps)
qed (use assms in auto)

lemma publishLuis_writes:
  "emits_only (\<lambda>ev. case ev of WriteJson p d \<Rightarrow> rewrites_luis_only cfg env p d | _ \<Rightarrow> True)
     (publishLuis cfg env name environment key region ek l)"
  unfolding publishLuis_def getFiles_def Let_def
  apply (intro emits_only_intros no_write_filter_models [THEN writes_mono]
      no_write_collect [THEN writes_mono] no_write_assign [THEN writes_mono])
  apply (simp_all add: io_simps rewrites_luis_only_def)
  apply (auto dest: luis_frame)
  done

lemma prepare_writes:
  "emits_only (\<lambda>ev. case ev of WriteJson p d \<Rightarrow> Q p d | _ \<Rightarrow> True)
     (deploy_prepare cfg env key region botPath language)"
  by (rule emits_only_mono [OF prepare_no_luis])
     (simp add: luis_publisher_event_def split: event.splits)

lemma package_writes:
  "emits_only (\<lambda>ev. case ev of WriteJson p d \<Rightarrow> Q p d | _ \<Rightarrow> True)
     (deploy_package cfg env name environment)"
  by (rule emits_only_mono [OF package_no_luis])
     (simp add: luis_publisher_event_def split: event.splits)

lemma deploy_body_writes:
  "emits_only (\<lambda>ev. case ev of WriteJson p d \<Rightarrow> rewrites_luis_only cfg env p d | _ \<Rightarrow> True)
     (deploy_body cfg env name environment key region botPath language)"
  unfolding deploy_body_def
  by (intro emits_only_intros emits_only_case_prod prepare_writes package_writes
      publishLuis_writes)

lemma deploy_writes_luis:
  assumes "WriteJson path doc \<in> set (snd (deploy cfg env name environment key region botPath language))"
  shows "rewrites_luis_only cfg env path doc"
proof -
  from assms
  have "WriteJson path doc \<in> set (snd (deploy_body cfg env name environment key region botPath language))"
    by (auto simp: deploy_trace split: sum.splits)
  from emits_only_set [OF deploy_body_writes this] show ?thesis by simp
qed

lemma keys_set_field: "fst ` set (set_field k v al) = insert k (fst ` set al)"
  by (simp add: set_field_def AList.dom_update)

lemma keys_fold_set_field:
  "fst ` set (fold (\<lambda>(k, v). set_field k v) xs t) = fst ` set t \<union> fst ` set xs"
proof (induction xs arbitrary: t)
  case Nil
  show ?case by simp
next
  case (Cons x xs)
  have "fst ` set (fold (\<lambda>(k, v). set_field k v) (x # xs) t)
      = fst ` set (set_field (fst x) (snd x) t) \<union> fst ` set xs"
    by (simp add: Cons.IH split_beta)
  also have "\<dots> = insert (fst x) (fst ` set t) \<union> fst ` set xs"
    by (simp only: keys_set_field)
  finally show ?case by auto
qed

lemma keys_object_assign:
  "fst ` set (object_assign t s) = fst ` set t \<union> fst ` set (enumerable s)"
  by (simp add: object_assign_def keys_fold_set_field)

lemma keys_unpack_loop:
  "unpack_loop acc xs = Inr r \<Longrightarrow> fst ` set r \<subseteq> fst ` set acc \<union> fst ` set xs"
proof (induction xs arbitrary: acc)
  case Nil
  then show ?case by simp
next
  case (Cons kv xs)
  obtain k ov where kv: "kv = (k, ov)" by (cases kv)
  from Cons.prems obtain v where v: "get_member ov ''value'' = Inr v"
    and rest: "unpack_loop (if truthy v then set_field k v acc else acc) xs = Inr r"
    by (auto simp: kv split: sum.splits)
  from Cons.IH [OF rest] show ?case
    by (auto simp: kv keys_set_field split: if_splits)
qed

lemma keys_unpackObject:
  "unpackObject v = Inr obj \<Longrightarrow>
   \<exists>fields. obj = JObj fields \<and> fst ` set fields \<subseteq> fst ` set (enumerable v)"
  unfolding unpackObject_def
  by (cases "unpack_loop [] (enumerable v)") (auto dest: keys_unpack_loop)

lemma keys_json_doc:
  "\<exists>fields. json_doc (JObj kvs) = JObj fields \<and> fst ` set fields \<subseteq> fst ` set kvs"
  by force

lemma merged_keys:
  assumes "unpackObject outs = Inr outputObj"
  shows "\<exists>fields.
     json_doc (JObj (object_assign (object_assign [] outputObj)
        (JObj [(''MicrosoftAppId'', a), (''MicrosoftAppPassword'', p)]))) = JObj fields \<and>
     (\<forall>k \<in> fst ` set fields.
        k \<in> fst ` set (enumerable outs) \<or> k = ''MicrosoftAppId'' \<or> k = ''MicrosoftAppPassword'')"
proof -
  from keys_unpackObject [OF assms] obtain fs where obj: "outputObj = JObj fs"
    and sub: "fst ` set fs \<subseteq> fst ` set (enumerable outs)" by blast
  let ?m = "object_assign (object_assign [] outputObj)
        (JObj [(''MicrosoftAppId'', a), (''MicrosoftAppPassword'', p)])"
  have km: "fst ` set ?m = fst ` set fs \<union> {''MicrosoftAppId'', ''MicrosoftAppPassword''}"
    by (simp add: keys_object_assign obj)
  from keys_json_doc [of ?m] obtain fields where d: "json_doc (JObj ?m) = JObj fields"
    and s: "fst ` set fields \<subseteq> fst ` set ?m" by blast
  from s km sub have "\<forall>k \<in> fst ` set fields.
        k \<in> fst ` set (enumerable outs) \<or> k = ''MicrosoftAppId'' \<or> k = ''MicrosoftAppPassword''"
    by blast
  with d show ?thesis by blast
qed

lemma no_write_report: "emits_only (\<lambda>ev. \<not> is_write_json ev) (report_operations ops)"
proof (induction ops)
  case Nil
  show ?case by (simp add: emits_only_ret)
next
  case (Cons operation rest)
  show ?case
    unfolding report_operations.simps
    by (intro emits_only_intros Cons.IH) (simp_all add: is_write_json_def)
qed

lemma no_write_diagnose: "emits_only (\<lambda>ev. \<not> is_write_json ev) (diagnose env g ts)"
  unfolding diagnose_def
  apply (intro emits_only_intros)
    apply (auto simp: emits_only_lift no_write_report intro!: emits_only_intros split: jsval.splits)
   apply (simp_all add: is_write_json_def)
  done

lemma written_doc:
  assumes "outputsResponse env = Inr outputs"
    and "truthy (opt_member (opt_member outputs ''properties'') ''outputs'')"
    and "unpackObject (opt_member (opt_member outputs ''properties'') ''outputs'') = Inr outputObj"
  shows "replaces_settings cfg env pw (settingsPath cfg)
           (json_doc (JObj (object_assign (object_assign [] outputObj)
              (JObj [(''MicrosoftAppId'', a), (''MicrosoftAppPassword'', of_opt pw)]))))"
proof -
  from merged_keys [OF assms(3), of a "of_opt pw"] obtain fields
    where "json_doc (JObj (object_assign (object_assign [] outputObj)
        (JObj [(''MicrosoftAppId'', a), (''MicrosoftAppPassword'', of_opt pw)]))) = JObj fields"
      and "\<forall>k \<in> fst ` set fields.
        k \<in> fst ` set (enumerable (opt_member (opt_member outputs ''properties'') ''outputs''))
        \<or> k = ''MicrosoftAppId'' \<or> k = ''MicrosoftAppPassword''"
    by blast
  with assms show ?thesis
    unfolding replaces_settings_def by blast
qed

lemma update_writes:
  "emits_only (\<lambda>ev. case ev of WriteJson p d \<Rightarrow> replaces_settings cfg env pw p d | _ \<Rightarrow> True)
     (updateDeploymentJsonFile env (settingsPath cfg) g ts a (of_opt pw))"
  unfolding updateDeploymentJsonFile_def Let_def
  apply (intro emits_only_intros)
  apply (simp_all add: io_simps written_doc del: json_doc.simps)
  done

lemma update_settings_writes:
  "emits_only (\<lambda>ev. case ev of WriteJson p d \<Rightarrow> replaces_settings cfg env pw p d | _ \<Rightarrow> True)
     (create_update_settings cfg env g ts a (of_opt pw))"
  unfolding create_update_settings_def
  by (intro emits_only_intros update_writes no_write_diagnose [THEN writes_mono]) simp_all

lemma deploy_writes:
  "emits_only (\<lambda>ev. case ev of WriteJson p d \<Rightarrow> replaces_settings cfg env pw p d | _ \<Rightarrow> True)
     (create_deploy cfg env loc g ts a (of_opt pw) params verr)"
  unfolding create_deploy_def createDeployment_def
  by (intro emits_only_intros update_settings_writes) simp_all

lemma resources_writes:
  "emits_only (\<lambda>ev. case ev of WriteJson p d \<Rightarrow> replaces_settings cfg env pw p d | _ \<Rightarrow> True)
     (create_resources cfg env name loc environment pw key a)"
  unfolding create_resources_def createResourceGroup_def validateDeployment_def Let_def
  by (intro emits_only_intros deploy_writes) simp_all

lemma create_writes:
  assumes "WriteJson path doc \<in> set (snd (create cfg env name loc environment pw key))"
  shows "replaces_settings cfg env pw path doc"
proof -
  have "emits_only (\<lambda>ev. case ev of WriteJson p d \<Rightarrow> replaces_settings cfg env pw p d | _ \<Rightarrow> True)
     (create cfg env name loc environment pw key)"
    unfolding create_def createApp_def
    by (intro emits_only_intros resources_writes) simp_all
  from emits_only_set [OF this assms] show ?thesis by simp
qed

text \<open>
  C1 (as amended). The two rewrites of a settings document behave differently. The
  LUIS-config merge in \<open>deploy\<close> reads the deployed settings, sets the \<open>luis\<close> key and
  writes the document back: every key other than \<open>luis\<close> has the value it had in the
  document read. The post-provision write in \<open>create\<close> does not merge into the
  document on disk: what it writes is built from the unpacked deployment outputs and the
  application id and password alone, so a key of the former document is kept only if it
  is the name of a deployment output or one of the two identity keys; and it writes only
  when the deployment has outputs.
\<close>

theorem settings_rewrite_frame:
  "(\<forall>path doc.
      WriteJson path doc
        \<in> set (snd (deploy cfg denv name environment luisAuthoringKey luisAuthoringRegion botPath
                     language))
      \<longrightarrow> rewrites_luis_only cfg denv path doc)
   \<and> (\<forall>path doc.
        WriteJson path doc
          \<in> set (snd (create cfg cenv name location environment appPassword luisAuthoringKey))
        \<longrightarrow> replaces_settings cfg cenv appPassword path doc)"
  by (blast intro: deploy_writes_luis create_writes)

theorem settings_rewrite_frame_witness:
  "WriteJson ''/proj/bin/appsettings.deployment.json''
     (JObj [(''MicrosoftAppId'', JStr ''app-1''),
            (''luis'', JObj [(''endpoint'', JStr ''https://westus.api.cognitive.microsoft.com''),
                             (''endpointKey'', JStr ''ekey''), (''main_lu'', JStr ''id-1'')]),
            (''customKey'', JStr ''keep'')])
     \<in> set (snd (deploy sample_config sample_deploy_env ''mybot'' ''dev'' None None None None))
   \<and> rewrites_luis_only sample_config sample_deploy_env ''/proj/bin/appsettings.deployment.json''
       (JObj [(''MicrosoftAppId'', JStr ''app-1''),
              (''luis'', JObj [(''endpoint'', JStr ''https://westus.api.cognitive.microsoft.com''),
                               (''endpointKey'', JStr ''ekey''), (''main_lu'', JStr ''id-1'')]),
              (''customKey'', JStr ''keep'')])
   \<and> WriteJson ''/proj/appsettings.deployment.json''
       (JObj [(''endpoint'', JStr ''https://x''), (''MicrosoftAppId'', JStr ''app-1''),
              (''MicrosoftAppPassword'', JStr ''pw'')])
       \<in> set (snd (create sample_config sample_create_env ''mybot'' ''westus'' ''dev'' (Some ''pw'') None))
   \<and> replaces_settings sample_config sample_create_env (Some ''pw'')
       ''/proj/appsettings.deployment.json''
       (JObj [(''endpoint'', JStr ''https://x''), (''MicrosoftAppId'', JStr ''app-1''),
              (''MicrosoftAppPassword'', JStr ''pw'')])"
proof -
  have w1: "WriteJson ''/proj/bin/appsettings.deployment.json''
     (JObj [(''MicrosoftAppId'', JStr ''app-1''),
            (''luis'', JObj [(''endpoint'', JStr ''https://westus.api.cognitive.microsoft.com''),
                             (''endpointKey'', JStr ''ekey''), (''main_lu'', JStr ''id-1'')]),
            (''customKey'', JStr ''keep'')])
     \<in> set (snd (deploy sample_config sample_deploy_env ''mybot'' ''dev'' None None None None))"
    by code_simp
  have w2: "WriteJson ''/proj/appsettings.deployment.json''
       (JObj [(''endpoint'', JStr ''https://x''), (''MicrosoftAppId'', JStr ''app-1''),
              (''MicrosoftAppPassword'', JStr ''pw'')])
       \<in> set (snd (create sample_config sample_create_env ''mybot'' ''westus'' ''dev'' (Some ''pw'') None))"
    by code_simp
  note frame = settings_rewrite_frame [of sample_config sample_deploy_env "''mybot''" "''dev''"
      None None None None sample_create_env "''westus''" "Some ''pw''"]
  from frame w1 have r1: "rewrites_luis_only sample_config sample_deploy_env
       ''/proj/bin/appsettings.deployment.json''
       (JObj [(''MicrosoftAppId'', JStr ''app-1''),
              (''luis'', JObj [(''endpoint'', JStr ''https://westus.api.cognitive.microsoft.com''),
                               (''endpointKey'', JStr ''ekey''), (''main_lu'', JStr ''id-1'')]),
              (''customKey'', JStr ''keep'')])"
    by blast
  from frame w2 have r2: "replaces_settings sample_config sample_create_env (Some ''pw'')
       ''/proj/appsettings.deployment.json''
       (JObj [(''endpoint'', JStr ''https://x''), (''MicrosoftAppId'', JStr ''app-1''),
              (''MicrosoftAppPassword'', JStr ''pw'')])"
    by blast
  from w1 w2 r1 r2 show ?thesis by blast
qed

theorem settings_rewrite_frame_counterexample:
  "settingsJson sample_create_env
     = Inr (JObj [(''MicrosoftAppId'', JStr ''app-1''), (''customKey'', JStr ''keep'')])
   \<and> map_of [(''MicrosoftAppId'', JStr ''app-1''), (''customKey'', JStr ''keep'')] ''customKey''
       = Some (JStr ''keep'')
   \<and> WriteJson ''/proj/appsettings.deployment.json''
       (JObj [(''endpoint'', JStr ''https://x''), (''MicrosoftAppId'', JStr ''app-1''),
              (''MicrosoftAppPassword'', JStr ''pw'')])
       \<in> set (snd (create sample_config sample_create_env ''mybot'' ''westus'' ''dev'' (Some ''pw'') None))
   \<and> map_of [(''endpoint'', JStr ''https://x''), (''MicrosoftAppId'', JStr ''app-1''),
             (''MicrosoftAppPassword'', JStr ''pw'')] ''customKey'' = None"
  by code_simp

subsection \<open>The publish page: an empty history with a \<open>lastPublished\<close> time stamp\<close>

lemma poll_bot_empty_history:
  assumes "publishTarget selectedBot = Some pt" "publishTargets selectedBot = Some targets"
    and "find (\<lambda>publishHistory. fst publishHistory = bot_id selectedBot) histories = Some ph"
    and "map_of (snd ph) pt = Some []"
  shows "poll_bot histories showNotifications pendingNotification botStatusList selectedBot
           = ([], botStatusList)"
  using assms by (simp add: poll_bot_def split: option.splits)

lemma poll_bot_never_fetches_now:
  "Now (GetPublishStatus botProjectId target)
     \<notin> set (fst (poll_bot histories showNotifications pendingNotification botStatusList selectedBot))"
  by (auto simp: poll_bot_def getUpdatedStatus_def Let_def split: option.splits if_splits)

text \<open>
  C8. The claim asks for one status fetch when the publish history of the selected
  target is empty while the target carries a \<open>lastPublished\<close> time stamp, and so does the
  comment in the source. The branch that makes the call tests for the empty history
  inside the branch that is taken only for a non-empty history; evaluated on such a bot,
  the effect makes no call at all.
\<close>

theorem poller_empty_history:
  "lastPublished sample_target = Some ''2020-09-01T10:00:00.000Z''
   \<and> poll_bots [(''bot-1'', [(''production'', [])])] [] None [sample_bot] [sample_bot] = []
   \<and> filter fetches_status
        (poll_bots [(''bot-1'', [(''production'', [])])] [] None [sample_bot] [sample_bot]) = []"
  by (simp add: sample_target_def sample_bot_def poll_bot_def)

end
